theory Spec2Isabelle
  imports Main "HOL-Library.Word" "HOL-Library.Signed_Division"
begin

unbundle bit_operations_syntax

section \<open>Result codes\<close>

text \<open>
  Every function of the layout engine returns an \<^verbatim>\<open>int\<close> result code. The codes that
  the modelled functions produce themselves are the constructors below; \<open>UDS_SUCCESS\<close> is
  the right injection of the sum, so a function with an output parameter returns
  \<open>Inr output\<close> and a function without one returns \<open>Inr ()\<close>.
  \<open>ENOMEM\<close> is the result of a failed \<^verbatim>\<open>UDS_ALLOCATE\<close>, \<open>UDS_BUFFER_ERROR\<close> that of
  a write past the end of a buffer; \<open>OTHER_ERROR\<close> carries a code handed up by a
  collaborator (the I/O layer, the volume index module).
\<close>

datatype uds_error =
    UDS_BAD_STATE
  | UDS_INVALID_ARGUMENT
  | UDS_INCORRECT_ALIGNMENT
  | UDS_UNEXPECTED_RESULT
  | UDS_INDEX_NOT_SAVED_CLEANLY
  | UDS_ASSERTION_FAILED
  | UDS_BUFFER_ERROR
  | ENOMEM
  | OTHER_ERROR int

type_synonym 'a result = "uds_error + 'a"

abbreviation UDS_SUCCESS :: "unit result" where
  "UDS_SUCCESS \<equiv> Inr ()"

section \<open>Geometry and the index page map (index-page-map.c)\<close>

text \<open>
  The fields of \<^verbatim>\<open>struct geometry\<close> that the modelled code reads. The three counts are
  \<^verbatim>\<open>unsigned int\<close> (the source copies them into \<^verbatim>\<open>unsigned int\<close> locals and multiplies
  them in that type); the two byte sizes are 64-bit.
\<close>

record geometry =
  bytes_per_page :: "64 word"
  bytes_per_volume :: "64 word"
  chapters_per_volume :: "32 word"
  index_pages_per_chapter :: "32 word"
  delta_lists_per_chapter :: "32 word"

text \<open>
  \<^verbatim>\<open>struct index_page_map\<close>: the geometry it was made for, the virtual chapter of the
  last update, and the array of \<^verbatim>\<open>uint16_t\<close> entries.
\<close>

record index_page_map =
  geometry :: geometry
  last_update :: "64 word"
  entries :: "16 word list"

record index_page_bounds =
  lowest_list :: "32 word"
  highest_list :: "32 word"

text \<open>
  \<^verbatim>\<open>num_entries\<close>: the product is computed in \<^verbatim>\<open>unsigned int\<close> and only then widened
  to \<^verbatim>\<open>size_t\<close>.
\<close>

definition num_entries :: "geometry \<Rightarrow> 64 word" where
  "num_entries g =
     ucast (chapters_per_volume g * (index_pages_per_chapter g - 1))"

text \<open>
  \<^verbatim>\<open>make_index_page_map\<close>. \<open>alloc n\<close> tells whether an allocation of \<open>n\<close> elements
  succeeds; allocated memory is zeroed.
\<close>

definition make_index_page_map ::
  "(nat \<Rightarrow> bool) \<Rightarrow> geometry \<Rightarrow> index_page_map result" where
  "make_index_page_map alloc g =
     (if \<not> (delta_lists_per_chapter g - 1 \<le> 65535) then Inl UDS_BAD_STATE
      else if \<not> alloc 1 then Inl ENOMEM
      else if \<not> alloc (unat (num_entries g)) then Inl ENOMEM
      else Inr \<lparr>geometry = g, last_update = 0,
                entries = replicate (unat (num_entries g)) 0\<rparr>)"

text \<open>
  The condition under which \<^verbatim>\<open>update_index_page_map\<close> logs its warning. Logging
  changes neither the map nor the result.
\<close>

definition unexpected_update :: "index_page_map \<Rightarrow> 64 word \<Rightarrow> bool" where
  "unexpected_update m virtual_chapter_number =
     ((virtual_chapter_number < last_update m \<or>
       virtual_chapter_number > last_update m + 1) \<and> last_update m \<noteq> 0)"

text \<open>
  \<^verbatim>\<open>update_index_page_map\<close>. The map is returned on every path, since the source
  assigns \<^verbatim>\<open>last_update\<close> before its range checks. The result is \<open>None\<close> when the
  store \<^verbatim>\<open>map->entries[slot]\<close> would fall outside the allocated array, where C
  leaves the behaviour undefined.
\<close>

definition update_index_page_map ::
  "index_page_map \<Rightarrow> 64 word \<Rightarrow> 32 word \<Rightarrow> 32 word \<Rightarrow> 32 word
     \<Rightarrow> (unit result \<times> index_page_map) option" where
  "update_index_page_map m virtual_chapter_number chapter_number
       index_page_number delta_list_number =
     (let g = geometry m;
          m1 = m\<lparr>last_update := virtual_chapter_number\<rparr>
      in if chapter_number \<ge> chapters_per_volume g
           then Some (Inl UDS_INVALID_ARGUMENT, m1)
         else if index_page_number \<ge> index_pages_per_chapter g
           then Some (Inl UDS_INVALID_ARGUMENT, m1)
         else if delta_list_number \<ge> delta_lists_per_chapter g
           then Some (Inl UDS_INVALID_ARGUMENT, m1)
         else if index_page_number = index_pages_per_chapter g - 1
           then Some (UDS_SUCCESS, m1)
         else
           let slot = unat (chapter_number * (index_pages_per_chapter g - 1)
                            + index_page_number)
           in if slot < length (entries m1)
                then Some (UDS_SUCCESS,
                       m1\<lparr>entries := (entries m1)[slot := ucast delta_list_number]\<rparr>)
              else None)"

text \<open>A read of \<^verbatim>\<open>map->entries[i]\<close>; \<open>None\<close> outside the array.\<close>

definition read_entry :: "index_page_map \<Rightarrow> 32 word \<Rightarrow> 16 word option" where
  "read_entry m i =
     (if unat i < length (entries m) then Some (entries m ! unat i) else None)"

text \<open>
  \<^verbatim>\<open>get_list_number_bounds\<close>. A failed \<^verbatim>\<open>ASSERT\<close> returns
  \<open>UDS_ASSERTION_FAILED\<close>. An entry is promoted to \<^verbatim>\<open>int\<close> before the
  addition of 1, so the sum does not wrap at 16 bits.
\<close>

definition get_list_number_bounds ::
  "index_page_map \<Rightarrow> 32 word \<Rightarrow> 32 word \<Rightarrow> index_page_bounds result option" where
  "get_list_number_bounds m chapter_number index_page_number =
     (let g = geometry m
      in if \<not> chapter_number < chapters_per_volume g
           then Some (Inl UDS_ASSERTION_FAILED)
         else if \<not> index_page_number < index_pages_per_chapter g
           then Some (Inl UDS_ASSERTION_FAILED)
         else
           let slot = chapter_number * (index_pages_per_chapter g - 1);
               lowest =
                 (if index_page_number = 0 then Some 0
                  else map_option (\<lambda>e. ucast e + 1)
                         (read_entry m (slot + index_page_number - 1)));
               highest =
                 (if index_page_number = index_pages_per_chapter g - 1
                    then Some (delta_lists_per_chapter g - 1)
                  else map_option ucast (read_entry m (slot + index_page_number)))
           in case (lowest, highest) of
                (Some lo, Some hi) \<Rightarrow>
                   Some (Inr \<lparr>lowest_list = lo, highest_list = hi\<rparr>)
              | _ \<Rightarrow> None)"

text \<open>\<^verbatim>\<open>index_page_map_size\<close> and \<^verbatim>\<open>compute_index_page_map_save_size\<close>: two bytes
  per entry, then the 8-byte magic and the 8-byte \<^verbatim>\<open>last_update\<close>.\<close>

definition index_page_map_size :: "geometry \<Rightarrow> 64 word" where
  "index_page_map_size g = 2 * num_entries g"

definition compute_index_page_map_save_size :: "geometry \<Rightarrow> 64 word" where
  "compute_index_page_map_save_size g = index_page_map_size g + 8 + 8"

text \<open>
  A map as \<^verbatim>\<open>make_index_page_map\<close> leaves it: the delta-list count passed the
  constructor's assertion, the entry array has \<open>num_entries\<close> elements, and the product
  of \<open>num_entries\<close> did not wrap.
\<close>

definition index_page_map_ok :: "index_page_map \<Rightarrow> bool" where
  "index_page_map_ok m =
     (delta_lists_per_chapter (geometry m) - 1 \<le> 65535 \<and>
      length (entries m) = unat (num_entries (geometry m)) \<and>
      unat (chapters_per_volume (geometry m)) *
        unat (index_pages_per_chapter (geometry m) - 1) < 2 ^ 32)"

text \<open>The range check of \<^verbatim>\<open>update_index_page_map\<close>.\<close>

definition in_range :: "geometry \<Rightarrow> 32 word \<Rightarrow> 32 word \<Rightarrow> 32 word \<Rightarrow> bool" where
  "in_range g chapter_number index_page_number delta_list_number =
     (chapter_number < chapters_per_volume g \<and>
      index_page_number < index_pages_per_chapter g \<and>
      delta_list_number < delta_lists_per_chapter g)"

text \<open>The geometry of the page-map scenario (4 chapters, 3 index pages per chapter,
  10 delta lists per chapter), a map freshly made for it, and the same map after
  \<^verbatim>\<open>update(m, 1, 0, 0, 3)\<close>.\<close>

definition scenario_geometry :: geometry where
  "scenario_geometry =
     \<lparr>bytes_per_page = 4096, bytes_per_volume = 49152, chapters_per_volume = 4,
      index_pages_per_chapter = 3, delta_lists_per_chapter = 10\<rparr>"

definition scenario_map :: index_page_map where
  "scenario_map =
     \<lparr>geometry = scenario_geometry, last_update = 0, entries = [0, 0, 0, 0, 0, 0, 0, 0]\<rparr>"

definition scenario_map_3 :: index_page_map where
  "scenario_map_3 =
     \<lparr>geometry = scenario_geometry, last_update = 1, entries = [3, 0, 0, 0, 0, 0, 0, 0]\<rparr>"

section \<open>The index layout (index-layout.c)\<close>

subsection \<open>Constants and structures\<close>

text \<open>
  Modelled from the spec: \<^verbatim>\<open>UDS_BLOCK_SIZE\<close> is defined in a header that is not among
  the sources; the spec fixes the block size at 4096 bytes.
\<close>

definition UDS_BLOCK_SIZE :: "64 word" where
  "UDS_BLOCK_SIZE = 4096"

text \<open>\<^verbatim>\<open>enum region_type\<close>, the \<^verbatim>\<open>type\<close> of a region header.\<close>

definition RH_TYPE_FREE :: "16 word" where "RH_TYPE_FREE = 0"
definition RH_TYPE_SUPER :: "16 word" where "RH_TYPE_SUPER = 1"
definition RH_TYPE_SAVE :: "16 word" where "RH_TYPE_SAVE = 2"
definition RH_TYPE_CHECKPOINT :: "16 word" where "RH_TYPE_CHECKPOINT = 3"
definition RH_TYPE_UNSAVED :: "16 word" where "RH_TYPE_UNSAVED = 4"

definition RL_SOLE_INSTANCE :: "32 word" where "RL_SOLE_INSTANCE = 65535"

definition REGION_MAGIC :: "64 word" where "REGION_MAGIC = 0x416c6252676e3031"

text \<open>
  Modelled from the spec: \<^verbatim>\<open>enum region_kind\<close> is declared in index-layout.h, which is
  not among the sources. The spec lists the closed set of kinds; the numbers of INDEX,
  VOLUME, SAVE, INDEX_PAGE_MAP, VOLUME_INDEX and OPEN_CHAPTER are those of the layout
  diagrams in index-layout.c, and SCRATCH, HEADER, CONFIG and SEAL take 0, 1, 100 and
  102. Only their being distinct matters below.
\<close>

definition RL_KIND_SCRATCH :: "32 word" where "RL_KIND_SCRATCH = 0"
definition RL_KIND_HEADER :: "32 word" where "RL_KIND_HEADER = 1"
definition RL_KIND_CONFIG :: "32 word" where "RL_KIND_CONFIG = 100"
definition RL_KIND_INDEX :: "32 word" where "RL_KIND_INDEX = 101"
definition RL_KIND_SEAL :: "32 word" where "RL_KIND_SEAL = 102"
definition RL_KIND_VOLUME :: "32 word" where "RL_KIND_VOLUME = 201"
definition RL_KIND_SAVE :: "32 word" where "RL_KIND_SAVE = 202"
definition RL_KIND_INDEX_PAGE_MAP :: "32 word" where "RL_KIND_INDEX_PAGE_MAP = 301"
definition RL_KIND_VOLUME_INDEX :: "32 word" where "RL_KIND_VOLUME_INDEX = 302"
definition RL_KIND_OPEN_CHAPTER :: "32 word" where "RL_KIND_OPEN_CHAPTER = 303"

text \<open>
  The structures of index-layout.c. A field keeps its name in the source unless two
  structures share it or Isabelle reserves it: \<^verbatim>\<open>type\<close> and \<^verbatim>\<open>version\<close> of the region
  header are \<open>rh_type\<close> and \<open>rh_version\<close>, \<^verbatim>\<open>instance\<close> is \<open>instance_no\<close>, the
  \<^verbatim>\<open>header\<close> of a region table and of a save layout are \<open>rt_header\<close> and \<open>isl_header\<close>,
  \<^verbatim>\<open>nonce\<close> and \<^verbatim>\<open>version\<close> of the save data are \<open>isd_nonce\<close> and \<open>isd_version\<close>, the
  \<^verbatim>\<open>nonce\<close> of the sub-index is \<open>sil_nonce\<close>, the \<^verbatim>\<open>index_page_map\<close> region of a save
  layout is \<open>index_page_map_lr\<close>, and the \<^verbatim>\<open>geometry\<close> of a configuration is
  \<open>cfg_geometry\<close>.
  An array behind a pointer is a list (\<open>[]\<close> for a null pointer), a pointer to a single
  optional region is an \<open>option\<close>. The \<^verbatim>\<open>magic_label\<close> and \<^verbatim>\<open>nonce_info\<close> of the
  superblock are arrays of 32 bytes, and its 4 bytes of padding carry nothing.
\<close>

record region_header =
  magic :: "64 word"
  region_blocks :: "64 word"
  rh_type :: "16 word"
  rh_version :: "16 word"
  num_regions :: "16 word"
  payload :: "16 word"

record layout_region =
  start_block :: "64 word"
  num_blocks :: "64 word"
  checksum :: "32 word"
  kind :: "16 word"
  instance_no :: "16 word"

record region_table =
  rt_header :: region_header
  regions :: "layout_region list"

record index_save_data =
  timestamp :: "64 word"
  isd_nonce :: "64 word"
  isd_version :: "32 word"
  unused :: "32 word"

datatype index_save_type = IS_SAVE | NO_SAVE

record index_save_layout =
  index_save :: layout_region
  isl_header :: layout_region
  num_zones :: "32 word"
  index_page_map_lr :: layout_region
  free_space :: layout_region
  volume_index_zones :: "layout_region list"
  open_chapter :: "layout_region option"
  save_type :: index_save_type
  save_data :: index_save_data
  index_state_buffer :: "8 word list option"
  read :: bool
  written :: bool

record sub_index_layout =
  sub_index :: layout_region
  sil_nonce :: "64 word"
  volume :: layout_region
  saves :: "index_save_layout list"

record super_block_data =
  magic_label :: "8 word list"
  nonce_info :: "8 word list"
  nonce :: "64 word"
  version :: "32 word"
  block_size :: "32 word"
  num_indexes :: "16 word"
  max_saves :: "16 word"
  open_chapter_blocks :: "64 word"
  page_map_blocks :: "64 word"
  volume_offset :: "64 word"
  start_offset :: "64 word"

text \<open>
  \<^verbatim>\<open>struct index_layout\<close>. The \<^verbatim>\<open>factory\<close> pointer is the handle of the backing
  store, whose state is passed separately to the functions that write.
\<close>

record index_layout =
  factory_size :: "64 word"
  offset :: "64 word"
  super :: super_block_data
  header :: layout_region
  config :: layout_region
  index :: sub_index_layout
  seal :: layout_region
  total_blocks :: "64 word"

record save_layout_sizes =
  num_saves :: "32 word"
  sls_block_size :: "64 word"
  volume_blocks :: "64 word"
  volume_index_blocks :: "64 word"
  sls_page_map_blocks :: "64 word"
  sls_open_chapter_blocks :: "64 word"
  save_blocks :: "64 word"
  sub_index_blocks :: "64 word"
  sls_total_blocks :: "64 word"
  total_size :: "64 word"

text \<open>
  \<^verbatim>\<open>struct configuration\<close> is declared outside the sources; the layout code reads its
  \<^verbatim>\<open>geometry\<close> and hands the whole configuration to its collaborators, so the record
  is used through its extensible scheme.
\<close>

record configuration =
  cfg_geometry :: geometry

subsection \<open>Size computation\<close>

definition block_count :: "64 word \<Rightarrow> 32 word \<Rightarrow> 64 word" where
  "block_count bytes bsize =
     (let blocks = bytes div ucast bsize
      in if bytes mod ucast bsize > 0 then blocks + 1 else blocks)"

text \<open>
  \<^verbatim>\<open>compute_sizes\<close>. Its two collaborators outside the sources are parameters:
  \<open>compute_volume_index_save_blocks cfg block_size\<close> returns a block count or an
  error code, \<open>compute_saved_open_chapter_size geometry\<close> returns a byte count.
  All arithmetic is that of \<^verbatim>\<open>uint64_t\<close>.
\<close>

definition compute_sizes ::
  "('z configuration_scheme \<Rightarrow> 64 word \<Rightarrow> 64 word result) \<Rightarrow> (geometry \<Rightarrow> 64 word)
     \<Rightarrow> 'z configuration_scheme \<Rightarrow> save_layout_sizes result" where
  "compute_sizes compute_volume_index_save_blocks compute_saved_open_chapter_size cfg =
     (let g = cfg_geometry cfg
      in if bytes_per_page g mod UDS_BLOCK_SIZE \<noteq> 0 then Inl UDS_INCORRECT_ALIGNMENT
         else
           let n_saves = (2 :: 32 word);
               bsize = UDS_BLOCK_SIZE;
               v_blocks = bytes_per_volume g div bsize
           in case compute_volume_index_save_blocks cfg bsize of
                Inl e \<Rightarrow> Inl e
              | Inr vi_blocks \<Rightarrow>
                  let pm_blocks =
                        block_count (compute_index_page_map_save_size g) (ucast bsize);
                      oc_blocks =
                        block_count (compute_saved_open_chapter_size g) (ucast bsize);
                      s_blocks = 1 + (vi_blocks + pm_blocks + oc_blocks);
                      si_blocks = v_blocks + ucast n_saves * s_blocks;
                      t_blocks = 3 + si_blocks
                  in Inr \<lparr>num_saves = n_saves,
                           sls_block_size = bsize,
                           volume_blocks = v_blocks,
                           volume_index_blocks = vi_blocks,
                           sls_page_map_blocks = pm_blocks,
                           sls_open_chapter_blocks = oc_blocks,
                           save_blocks = s_blocks,
                           sub_index_blocks = si_blocks,
                           sls_total_blocks = t_blocks,
                           total_size = t_blocks * bsize\<rparr>)"

subsection \<open>Little-endian encoding and nonces\<close>

text \<open>
  \<^verbatim>\<open>encode_uint64_le\<close>, \<^verbatim>\<open>encode_uint32_le\<close> and \<^verbatim>\<open>encode_uint16_le\<close> of numeric.h
  append the bytes of a value, least significant first; \<^verbatim>\<open>get_unaligned_le64\<close> reads
  eight bytes back.
\<close>

definition encode_uint64_le :: "64 word \<Rightarrow> 8 word list" where
  "encode_uint64_le v = map (\<lambda>i. ucast (drop_bit (8 * i) v)) [0, 1, 2, 3, 4, 5, 6, 7]"

definition encode_uint32_le :: "32 word \<Rightarrow> 8 word list" where
  "encode_uint32_le v = map (\<lambda>i. ucast (drop_bit (8 * i) v)) [0, 1, 2, 3]"

definition encode_uint16_le :: "16 word \<Rightarrow> 8 word list" where
  "encode_uint16_le v = map (\<lambda>i. ucast (drop_bit (8 * i) v)) [0, 1]"

definition get_unaligned_le64 :: "8 word list \<Rightarrow> 64 word" where
  "get_unaligned_le64 bytes =
     foldr (\<lambda>b acc. ucast b OR push_bit 8 acc) (take 8 bytes) 0"

text \<open>
  Modelled from the spec: \<^verbatim>\<open>murmurhash3_128\<close> comes from linux/murmurhash3.h, outside
  the sources; the spec gives it as \<open>murmur128(bytes, seed) \<rightarrow> [u8; 16]\<close> and nothing
  more, so it is a parameter \<open>h\<close> of every function that hashes: \<open>h data seed\<close> is the
  16-byte digest.
\<close>

type_synonym murmur128 = "8 word list \<Rightarrow> 32 word \<Rightarrow> 8 word list"

definition hash_stuff :: "murmur128 \<Rightarrow> 64 word \<Rightarrow> 8 word list \<Rightarrow> 64 word" where
  "hash_stuff h start data =
     (let seed = (ucast (start XOR drop_bit 27 start) :: 32 word)
      in get_unaligned_le64 (drop 4 (h data seed)))"

definition generate_primary_nonce :: "murmur128 \<Rightarrow> 8 word list \<Rightarrow> 64 word" where
  "generate_primary_nonce h data = hash_stuff h 0xa1b1e0fc data"

definition generate_secondary_nonce ::
  "murmur128 \<Rightarrow> 64 word \<Rightarrow> 8 word list \<Rightarrow> 64 word" where
  "generate_secondary_nonce h nonce0 data = hash_stuff h (nonce0 + 1) data"

text \<open>
  The buffer that \<^verbatim>\<open>define_sub_index_nonce\<close> hashes: 16 zeroed bytes (the size of its
  local structure of a \<^verbatim>\<open>uint64_t\<close> and a \<^verbatim>\<open>uint16_t\<close>), overwritten from the front by
  the start block and the index id.
\<close>

definition sub_index_nonce_buffer :: "64 word \<Rightarrow> 32 word \<Rightarrow> 8 word list" where
  "sub_index_nonce_buffer start index_id =
     encode_uint64_le start @ encode_uint16_le (ucast index_id) @ replicate 6 0"

definition define_sub_index_nonce ::
  "murmur128 \<Rightarrow> index_layout \<Rightarrow> 32 word \<Rightarrow> index_layout" where
  "define_sub_index_nonce h layout index_id =
     (let sil = index layout;
          primary_nonce = nonce (super layout);
          buffer = sub_index_nonce_buffer (start_block (sub_index sil)) index_id;
          n1 = generate_secondary_nonce h primary_nonce buffer;
          n2 = (if n1 = 0
                  then generate_secondary_nonce h (NOT primary_nonce + 1) buffer
                else n1)
      in layout\<lparr>index := sil\<lparr>sil_nonce := n2\<rparr>\<rparr>)"

subsection \<open>Validating and selecting save slots\<close>

text \<open>\<^verbatim>\<open>encode_index_save_data\<close>: the 24 bytes of a save's data as written to disk; the
  padding is written as zeros.\<close>

definition encode_index_save_data :: "index_save_data \<Rightarrow> 8 word list" where
  "encode_index_save_data d =
     encode_uint64_le (timestamp d) @ encode_uint64_le (isd_nonce d) @
     encode_uint32_le (isd_version d) @ replicate 4 0"

definition generate_index_save_nonce ::
  "murmur128 \<Rightarrow> 64 word \<Rightarrow> index_save_layout \<Rightarrow> 64 word" where
  "generate_index_save_nonce h volume_nonce slot =
     (let nonce_data = (save_data slot)\<lparr>isd_nonce := 0\<rparr>;
          nonce_offset = start_block (index_save slot);
          buffer = encode_uint64_le (timestamp nonce_data) @
                   encode_uint64_le (isd_nonce nonce_data) @
                   encode_uint32_le (isd_version nonce_data) @
                   encode_uint32_le 0 @
                   encode_uint64_le nonce_offset
      in generate_secondary_nonce h volume_nonce buffer)"

text \<open>
  \<^verbatim>\<open>validate_index_save_layout\<close>. \<open>Inr t\<close> is \<open>UDS_SUCCESS\<close> with \<open>t\<close> stored through
  \<^verbatim>\<open>save_time_ptr\<close>.
\<close>

definition validate_index_save_layout ::
  "murmur128 \<Rightarrow> index_save_layout \<Rightarrow> 64 word \<Rightarrow> 64 word result" where
  "validate_index_save_layout h slot volume_nonce =
     (if save_type slot = NO_SAVE \<or> num_zones slot = 0 \<or> timestamp (save_data slot) = 0
        then Inl UDS_BAD_STATE
      else if isd_nonce (save_data slot) \<noteq> generate_index_save_nonce h volume_nonce slot
        then Inl UDS_BAD_STATE
      else Inr (timestamp (save_data slot)))"

text \<open>
  The loop of \<^verbatim>\<open>select_oldest_index_save_layout\<close> over the slots from position \<open>i\<close>
  on; \<open>oldest\<close> is the position of the slot chosen so far (\<open>None\<close> for the null
  pointer) and \<open>oldest_time\<close> its time.
\<close>

fun oldest_scan ::
  "murmur128 \<Rightarrow> 64 word \<Rightarrow> index_save_layout list \<Rightarrow> nat \<Rightarrow> nat option \<Rightarrow> 64 word
     \<Rightarrow> nat option \<times> 64 word" where
  "oldest_scan h volume_nonce [] i oldest oldest_time = (oldest, oldest_time)"
| "oldest_scan h volume_nonce (slot # rest) i oldest oldest_time =
     (let save_time =
            (case validate_index_save_layout h slot volume_nonce of
               Inr t \<Rightarrow> t
             | Inl e \<Rightarrow> 0)
      in if oldest = None \<or> save_time < oldest_time
           then oldest_scan h volume_nonce rest (Suc i) (Some i) save_time
         else oldest_scan h volume_nonce rest (Suc i) oldest oldest_time)"

text \<open>
  \<^verbatim>\<open>select_oldest_index_save_layout\<close> returns the position of the chosen slot in
  \<^verbatim>\<open>sil->saves\<close>. The result is \<open>None\<close> when \<^verbatim>\<open>max_saves\<close> exceeds the length of the
  array, where the loop would read past its end.
\<close>

definition select_oldest_index_save_layout ::
  "murmur128 \<Rightarrow> sub_index_layout \<Rightarrow> 32 word \<Rightarrow> nat result option" where
  "select_oldest_index_save_layout h sil n_saves =
     (if length (saves sil) < unat n_saves then None
      else case fst (oldest_scan h (sil_nonce sil) (take (unat n_saves) (saves sil))
                       0 None 0) of
             None \<Rightarrow> Some (Inl UDS_ASSERTION_FAILED)
           | Some i \<Rightarrow> Some (Inr i))"

fun latest_scan ::
  "murmur128 \<Rightarrow> 64 word \<Rightarrow> index_save_layout list \<Rightarrow> nat \<Rightarrow> nat option \<Rightarrow> 64 word
     \<Rightarrow> nat option \<times> 64 word" where
  "latest_scan h volume_nonce [] i latest latest_time = (latest, latest_time)"
| "latest_scan h volume_nonce (slot # rest) i latest latest_time =
     (case validate_index_save_layout h slot volume_nonce of
        Inl e \<Rightarrow> latest_scan h volume_nonce rest (Suc i) latest latest_time
      | Inr save_time \<Rightarrow>
          if save_time > latest_time
            then latest_scan h volume_nonce rest (Suc i) (Some i) save_time
          else latest_scan h volume_nonce rest (Suc i) latest latest_time)"

definition select_latest_index_save_layout ::
  "murmur128 \<Rightarrow> sub_index_layout \<Rightarrow> 32 word \<Rightarrow> nat result option" where
  "select_latest_index_save_layout h sil n_saves =
     (if length (saves sil) < unat n_saves then None
      else case fst (latest_scan h (sil_nonce sil) (take (unat n_saves) (saves sil))
                       0 None 0) of
             None \<Rightarrow> Some (Inl UDS_INDEX_NOT_SAVED_CLEANLY)
           | Some i \<Rightarrow> Some (Inr i))"

text \<open>
  The words of the spec, for comparison with the code: the nonce a valid save must
  carry, and the time a slot counts with when the oldest is chosen.
\<close>

definition expected_save_nonce ::
  "murmur128 \<Rightarrow> 64 word \<Rightarrow> index_save_layout \<Rightarrow> 64 word" where
  "expected_save_nonce h sub_index_nonce slot =
     generate_secondary_nonce h sub_index_nonce
       (encode_index_save_data ((save_data slot)\<lparr>isd_nonce := 0\<rparr>) @
        encode_uint64_le (start_block (index_save slot)))"

definition effective_time :: "murmur128 \<Rightarrow> 64 word \<Rightarrow> index_save_layout \<Rightarrow> 64 word" where
  "effective_time h volume_nonce slot =
     (case validate_index_save_layout h slot volume_nonce of
        Inr t \<Rightarrow> t
      | Inl e \<Rightarrow> 0)"

definition valid_save :: "murmur128 \<Rightarrow> 64 word \<Rightarrow> index_save_layout \<Rightarrow> bool" where
  "valid_save h volume_nonce slot =
     (validate_index_save_layout h slot volume_nonce = Inr (timestamp (save_data slot)))"

subsection \<open>Carving and reconstructing a save slot\<close>

text \<open>
  \<^verbatim>\<open>setup_layout\<close> returns the region it stores through \<^verbatim>\<open>lr\<close> and the advanced
  \<^verbatim>\<open>*next_addr_ptr\<close>. Kind and instance arrive as \<^verbatim>\<open>unsigned int\<close> and are stored in
  16-bit fields.
\<close>

definition setup_layout ::
  "64 word \<Rightarrow> 64 word \<Rightarrow> 32 word \<Rightarrow> 32 word \<Rightarrow> layout_region \<times> 64 word" where
  "setup_layout next_addr region_size knd inst =
     (\<lparr>start_block = next_addr, num_blocks = region_size, checksum = 0,
       kind = ucast knd, instance_no = ucast inst\<rparr>,
      next_addr + region_size)"

text \<open>The loop of \<^verbatim>\<open>populate_index_save_layout\<close> over the zones \<open>z, z + 1, \<dots>\<close>, with
  \<open>k\<close> zones still to set up.\<close>

fun populate_zones ::
  "64 word \<Rightarrow> nat \<Rightarrow> nat \<Rightarrow> layout_region list \<Rightarrow> 64 word
     \<Rightarrow> layout_region list \<times> 64 word" where
  "populate_zones mi_block_count 0 z zones next_block = (zones, next_block)"
| "populate_zones mi_block_count (Suc k) z zones next_block =
     (let (miz, next_block') =
            setup_layout next_block mi_block_count RL_KIND_VOLUME_INDEX (of_nat z)
      in populate_zones mi_block_count k (Suc z) (zones[z := miz]) next_block')"

text \<open>
  \<^verbatim>\<open>populate_index_save_layout\<close>. The result is \<open>None\<close> when the zone array of the slot
  is shorter than \<open>n_zones\<close>, where the loop would store past its end.
\<close>

definition populate_index_save_layout ::
  "index_save_layout \<Rightarrow> super_block_data \<Rightarrow> 32 word \<Rightarrow> index_save_type
     \<Rightarrow> index_save_layout option" where
  "populate_index_save_layout slot sb n_zones stype =
     (if length (volume_index_zones slot) < unat n_zones then None
      else
        let first_block = start_block (index_save slot);
            (hdr, next1) = setup_layout first_block 1 RL_KIND_HEADER RL_SOLE_INSTANCE;
            (ipm, next2) =
              setup_layout next1 (page_map_blocks sb) RL_KIND_INDEX_PAGE_MAP
                RL_SOLE_INSTANCE;
            blocks_avail =
              num_blocks (index_save slot) - (next2 - first_block) -
                open_chapter_blocks sb;
            (zones, next3) =
              (if n_zones > 0
                 then populate_zones (blocks_avail div ucast n_zones) (unat n_zones) 0
                        (volume_index_zones slot) next2
               else (volume_index_zones slot, next2));
            (oc, next4) =
              (if stype = IS_SAVE \<and> open_chapter slot \<noteq> None
                 then (let (r, n) =
                             setup_layout next3 (open_chapter_blocks sb)
                               RL_KIND_OPEN_CHAPTER RL_SOLE_INSTANCE
                       in (Some r, n))
               else (open_chapter slot, next3));
            (fs, next5) =
              setup_layout next4 (num_blocks (index_save slot) - (next4 - first_block))
                RL_KIND_SCRATCH RL_SOLE_INSTANCE
        in Some (slot\<lparr>isl_header := hdr, index_page_map_lr := ipm,
                       volume_index_zones := zones, open_chapter := oc,
                       free_space := fs\<rparr>))"

text \<open>
  \<^verbatim>\<open>struct region_iterator\<close>: \<open>next_region\<close> holds the descriptors from
  \<^verbatim>\<open>next_region\<close> up to \<^verbatim>\<open>last_region\<close>.
\<close>

record region_iterator =
  next_region :: "layout_region list"
  next_block :: "64 word"
  iter_result :: "unit result"

definition iter_error :: "region_iterator \<Rightarrow> region_iterator" where
  "iter_error iter =
     (if iter_result iter = UDS_SUCCESS
        then iter\<lparr>iter_result := Inl UDS_UNEXPECTED_RESULT\<rparr>
      else iter)"

text \<open>
  \<^verbatim>\<open>expect_layout\<close> returns \<open>Some r\<close> for \<^verbatim>\<open>true\<close>, where \<open>r\<close> is the region it
  stores through \<^verbatim>\<open>lr\<close> when that pointer is not null, and \<open>None\<close> for \<^verbatim>\<open>false\<close>,
  together with the iterator it leaves.
\<close>

definition expect_layout ::
  "bool \<Rightarrow> region_iterator \<Rightarrow> 64 word \<Rightarrow> 32 word \<Rightarrow> 32 word
     \<Rightarrow> layout_region option \<times> region_iterator" where
  "expect_layout expect iter n_blocks knd inst =
     (if iter_result iter \<noteq> UDS_SUCCESS then (None, iter)
      else case next_region iter of
        [] \<Rightarrow> (None, if expect then iter_error iter else iter)
      | r # rest \<Rightarrow>
          if start_block r \<noteq> next_block iter then (None, iter_error iter)
          else if ucast (kind r) \<noteq> knd
            then (None, if expect then iter_error iter else iter)
          else if ucast (instance_no r) \<noteq> inst then (None, iter_error iter)
          else if n_blocks > 0 \<and> num_blocks r \<noteq> n_blocks then (None, iter_error iter)
          else (Some r,
                iter\<lparr>next_block := next_block iter + num_blocks r,
                     next_region := rest\<rparr>))"

text \<open>The loop of \<^verbatim>\<open>reconstruct_index_save\<close> that counts the volume index zones on a
  copy of the iterator.\<close>

function count_zones :: "region_iterator \<Rightarrow> 32 word \<Rightarrow> 32 word" where
  "count_zones tmp_iter n =
     (case expect_layout False tmp_iter 0 RL_KIND_VOLUME_INDEX n of
        (Some r, tmp_iter') \<Rightarrow> count_zones tmp_iter' (n + 1)
      | (None, tmp_iter') \<Rightarrow> n)"
  by pat_completeness auto
termination
  by (relation "measure (\<lambda>(tmp_iter, n). length (next_region tmp_iter))")
     (auto simp: expect_layout_def split: if_splits list.splits)

text \<open>The loop that reads the zones \<open>z, z + 1, \<dots>\<close>, with \<open>k\<close> zones still to read.\<close>

fun expect_zones ::
  "nat \<Rightarrow> nat \<Rightarrow> layout_region list \<Rightarrow> region_iterator
     \<Rightarrow> layout_region list \<times> region_iterator" where
  "expect_zones 0 z zones iter = (zones, iter)"
| "expect_zones (Suc k) z zones iter =
     (case expect_layout True iter 0 RL_KIND_VOLUME_INDEX (of_nat z) of
        (Some r, iter') \<Rightarrow> expect_zones k (Suc z) (zones[z := r]) iter'
      | (None, iter') \<Rightarrow> expect_zones k (Suc z) zones iter')"

definition zeroed_region :: layout_region where
  "zeroed_region =
     \<lparr>start_block = 0, num_blocks = 0, checksum = 0, kind = 0, instance_no = 0\<rparr>"

text \<open>
  \<^verbatim>\<open>reconstruct_index_save\<close> returns its result code and the slot as it leaves it.
  \<open>alloc n\<close> tells whether an allocation of \<open>n\<close> regions succeeds; allocated memory is
  zeroed. A region table is allocated with \<^verbatim>\<open>num_regions\<close> descriptors, so a table whose
  list has another length has no counterpart in the program and the result is \<open>None\<close>.
  After the failed allocation of the open chapter region the freed zone array is \<open>[]\<close>.
\<close>

definition reconstruct_index_save ::
  "(nat \<Rightarrow> bool) \<Rightarrow> index_save_layout \<Rightarrow> index_save_data \<Rightarrow> super_block_data
     \<Rightarrow> region_table \<Rightarrow> (unit result \<times> index_save_layout) option" where
  "reconstruct_index_save alloc slot data sb table =
     (if length (regions table) \<noteq> unat (num_regions (rt_header table)) then None
      else
        let slot1 = slot\<lparr>num_zones := 0, save_data := data, read := False,
                         written := False,
                         save_type := (if rh_type (rt_header table) = RH_TYPE_SAVE
                                         then IS_SAVE else NO_SAVE)\<rparr>
        in if num_regions (rt_header table) = 0 \<or>
              (num_regions (rt_header table) = 1 \<and>
               ucast (kind (regions table ! 0)) = RL_KIND_SCRATCH)
             then (case populate_index_save_layout slot1 sb 0 NO_SAVE of
                     None \<Rightarrow> None
                   | Some slot2 \<Rightarrow> Some (UDS_SUCCESS, slot2))
           else
             let iter0 = \<lparr>next_region = regions table,
                          next_block = start_block (index_save slot1),
                          iter_result = UDS_SUCCESS\<rparr>;
                 (hdr, iter1) = expect_layout True iter0 1 RL_KIND_HEADER RL_SOLE_INSTANCE;
                 slot2 = (case hdr of Some r \<Rightarrow> slot1\<lparr>isl_header := r\<rparr> | None \<Rightarrow> slot1);
                 (ipm, iter2) =
                   expect_layout True iter1 0 RL_KIND_INDEX_PAGE_MAP RL_SOLE_INSTANCE;
                 slot3 = (case ipm of Some r \<Rightarrow> slot2\<lparr>index_page_map_lr := r\<rparr>
                          | None \<Rightarrow> slot2);
                 n = count_zones iter2 0;
                 slot4 = slot3\<lparr>num_zones := n\<rparr>
             in if n > 0 \<and> \<not> alloc (unat n) then Some (Inl ENOMEM, slot4)
                else
                  let slot5 = (if n > 0
                                 then slot4\<lparr>volume_index_zones :=
                                               replicate (unat n) zeroed_region\<rparr>
                               else slot4)
                  in if save_type slot5 = IS_SAVE \<and> \<not> alloc 1
                       then Some (Inl ENOMEM, slot5\<lparr>volume_index_zones := []\<rparr>)
                     else
                       let slot6 = (if save_type slot5 = IS_SAVE
                                      then slot5\<lparr>open_chapter := Some zeroed_region\<rparr>
                                    else slot5);
                           (zones, iter3) =
                             expect_zones (unat (num_zones slot6)) 0
                               (volume_index_zones slot6) iter2;
                           slot7 = slot6\<lparr>volume_index_zones := zones\<rparr>;
                           (oc, iter4) =
                             (if save_type slot7 = IS_SAVE
                                then expect_layout True iter3 0 RL_KIND_OPEN_CHAPTER
                                       RL_SOLE_INSTANCE
                              else (None, iter3));
                           slot8 = (case oc of Some r \<Rightarrow> slot7\<lparr>open_chapter := Some r\<rparr>
                                    | None \<Rightarrow> slot7);
                           (fs, iter5) =
                             expect_layout False iter4 0 RL_KIND_SCRATCH RL_SOLE_INSTANCE;
                           save_end = start_block (index_save slot8) +
                                      num_blocks (index_save slot8);
                           synthesised =
                             \<lparr>start_block = next_block iter5,
                              num_blocks = save_end - next_block iter5,
                              checksum = 0, kind = ucast RL_KIND_SCRATCH,
                              instance_no = ucast RL_SOLE_INSTANCE\<rparr>;
                           slot9 = (case fs of Some r \<Rightarrow> slot8\<lparr>free_space := r\<rparr>
                                    | None \<Rightarrow> slot8\<lparr>free_space := synthesised\<rparr>);
                           iter6 = (case fs of Some r \<Rightarrow> iter5
                                    | None \<Rightarrow>
                                        iter5\<lparr>next_block :=
                                                start_block synthesised +
                                                num_blocks synthesised\<rparr>)
                       in if iter_result iter6 \<noteq> UDS_SUCCESS
                            then Some (iter_result iter6, slot9)
                          else if next_region iter6 \<noteq> []
                            then Some (Inl UDS_UNEXPECTED_RESULT, slot9)
                          else if next_block iter6 \<noteq> save_end
                            then Some (Inl UDS_UNEXPECTED_RESULT, slot9)
                          else Some (UDS_SUCCESS, slot9))"

subsection \<open>Writing the superblock and the conversion to version 7\<close>

text \<open>
  Modelled from the spec: the cursor-backed buffer of buffer.h is not among the sources.
  The spec describes it as a byte buffer with explicit bounds checks: a buffer has a
  fixed length, and appending past it fails.
\<close>

record buffer =
  buffer_length :: nat
  buffer_contents :: "8 word list"

definition make_buffer :: "(nat \<Rightarrow> bool) \<Rightarrow> nat \<Rightarrow> buffer result" where
  "make_buffer alloc n =
     (if alloc n then Inr \<lparr>buffer_length = n, buffer_contents = []\<rparr> else Inl ENOMEM)"

definition put_bytes :: "buffer \<Rightarrow> 8 word list \<Rightarrow> buffer result" where
  "put_bytes b bytes =
     (if length (buffer_contents b) + length bytes \<le> buffer_length b
        then Inr (b\<lparr>buffer_contents := buffer_contents b @ bytes\<rparr>)
      else Inl UDS_BUFFER_ERROR)"

definition put_uint64_le_into_buffer :: "buffer \<Rightarrow> 64 word \<Rightarrow> buffer result" where
  "put_uint64_le_into_buffer b v = put_bytes b (encode_uint64_le v)"

definition put_uint32_le_into_buffer :: "buffer \<Rightarrow> 32 word \<Rightarrow> buffer result" where
  "put_uint32_le_into_buffer b v = put_bytes b (encode_uint32_le v)"

definition put_uint16_le_into_buffer :: "buffer \<Rightarrow> 16 word \<Rightarrow> buffer result" where
  "put_uint16_le_into_buffer b v = put_bytes b (encode_uint16_le v)"

definition zero_bytes :: "buffer \<Rightarrow> nat \<Rightarrow> buffer result" where
  "zero_bytes b n = put_bytes b (replicate n 0)"

text \<open>The chain \<^verbatim>\<open>if (result != UDS_SUCCESS) return result;\<close> between two steps.\<close>

definition and_then :: "'a result \<Rightarrow> ('a \<Rightarrow> 'b result) \<Rightarrow> 'b result" where
  "and_then r f = (case r of Inl e \<Rightarrow> Inl e | Inr x \<Rightarrow> f x)"

definition encode_region_header :: "buffer \<Rightarrow> region_header \<Rightarrow> buffer result" where
  "encode_region_header b hd0 =
     and_then (put_uint64_le_into_buffer b REGION_MAGIC) (\<lambda>b1.
     and_then (put_uint64_le_into_buffer b1 (region_blocks hd0)) (\<lambda>b2.
     and_then (put_uint16_le_into_buffer b2 (rh_type hd0)) (\<lambda>b3.
     and_then (put_uint16_le_into_buffer b3 (rh_version hd0)) (\<lambda>b4.
     and_then (put_uint16_le_into_buffer b4 (num_regions hd0)) (\<lambda>b5.
     and_then (put_uint16_le_into_buffer b5 (payload hd0)) (\<lambda>b6.
       if length (buffer_contents b6) - length (buffer_contents b) = 24 then Inr b6
       else Inl UDS_ASSERTION_FAILED))))))"

definition encode_layout_region :: "buffer \<Rightarrow> layout_region \<Rightarrow> buffer result" where
  "encode_layout_region b region =
     and_then (put_uint64_le_into_buffer b (start_block region)) (\<lambda>b1.
     and_then (put_uint64_le_into_buffer b1 (num_blocks region)) (\<lambda>b2.
     and_then (put_uint32_le_into_buffer b2 (checksum region)) (\<lambda>b3.
     and_then (put_uint16_le_into_buffer b3 (kind region)) (\<lambda>b4.
     and_then (put_uint16_le_into_buffer b4 (instance_no region)) (\<lambda>b5.
       if length (buffer_contents b5) - length (buffer_contents b) = 24 then Inr b5
       else Inl UDS_ASSERTION_FAILED)))))"

definition is_converted_super_block :: "super_block_data \<Rightarrow> bool" where
  "is_converted_super_block sb = (version sb = 7)"

definition encode_super_block_data :: "buffer \<Rightarrow> super_block_data \<Rightarrow> buffer result" where
  "encode_super_block_data b sb =
     and_then (put_bytes b (take 32 (magic_label sb))) (\<lambda>b1.
     and_then (put_bytes b1 (take 32 (nonce_info sb))) (\<lambda>b2.
     and_then (put_uint64_le_into_buffer b2 (nonce sb)) (\<lambda>b3.
     and_then (put_uint32_le_into_buffer b3 (version sb)) (\<lambda>b4.
     and_then (put_uint32_le_into_buffer b4 (block_size sb)) (\<lambda>b5.
     and_then (put_uint16_le_into_buffer b5 (num_indexes sb)) (\<lambda>b6.
     and_then (put_uint16_le_into_buffer b6 (max_saves sb)) (\<lambda>b7.
     and_then (zero_bytes b7 4) (\<lambda>b8.
     and_then (put_uint64_le_into_buffer b8 (open_chapter_blocks sb)) (\<lambda>b9.
     and_then (put_uint64_le_into_buffer b9 (page_map_blocks sb)) (\<lambda>b10.
     and_then
       (if is_converted_super_block sb
          then and_then (put_uint64_le_into_buffer b10 (volume_offset sb)) (\<lambda>b11.
               put_uint64_le_into_buffer b11 (start_offset sb))
        else Inr b10) (\<lambda>b12.
       if length (buffer_contents b12) = buffer_length b12 then Inr b12
       else Inl UDS_ASSERTION_FAILED)))))))))))"

text \<open>
  The I/O layer is outside the sources and is a parameter. \<open>'d\<close> is the state of the
  backing store together with its open writers, \<open>'w\<close> a writer handle, \<open>'c\<close> the
  configuration that \<^verbatim>\<open>write_config_contents\<close> serialises. Every operation returns the
  state it leaves.
\<close>

record ('d, 'w, 'c) io_ops =
  open_uds_buffered_writer :: "64 word \<Rightarrow> 64 word \<Rightarrow> 'd \<Rightarrow> 'w result \<times> 'd"
  write_to_buffered_writer :: "'w \<Rightarrow> 8 word list \<Rightarrow> 'd \<Rightarrow> unit result \<times> 'd"
  flush_buffered_writer :: "'w \<Rightarrow> 'd \<Rightarrow> unit result \<times> 'd"
  free_buffered_writer :: "'w \<Rightarrow> 'd \<Rightarrow> 'd"
  write_config_contents :: "'w \<Rightarrow> 'c \<Rightarrow> 32 word \<Rightarrow> 'd \<Rightarrow> unit result \<times> 'd"

definition open_layout_writer ::
  "('d, 'w, 'c) io_ops \<Rightarrow> index_layout \<Rightarrow> layout_region \<Rightarrow> 64 word \<Rightarrow> 'd
     \<Rightarrow> 'w result \<times> 'd" where
  "open_layout_writer io layout lr off d =
     (let start = (start_block lr + off) * ucast (block_size (super layout));
          size0 = num_blocks lr * ucast (block_size (super layout))
      in open_uds_buffered_writer io start size0 d)"

definition zeroed_header :: region_header where
  "zeroed_header =
     \<lparr>magic = 0, region_blocks = 0, rh_type = 0, rh_version = 0, num_regions = 0,
      payload = 0\<rparr>"

text \<open>
  \<^verbatim>\<open>make_single_file_region_table\<close> returns the number of regions and the table. The
  result is \<open>None\<close> when the slot array is shorter than \<^verbatim>\<open>max_saves\<close>, where the loop
  would read past its end.
\<close>

definition make_single_file_region_table ::
  "(nat \<Rightarrow> bool) \<Rightarrow> index_layout \<Rightarrow> (32 word \<times> region_table) result option" where
  "make_single_file_region_table alloc layout =
     (let n_regions = (1 + 1 + 1 + 1 + ucast (max_saves (super layout)) + 1 :: 32 word);
          sil = index layout
      in if length (saves sil) < unat (max_saves (super layout)) then None
         else if \<not> alloc (unat n_regions) then Some (Inl ENOMEM)
         else
           let lrs = [header layout, config layout, sub_index sil, volume sil] @
                     map index_save (take (unat (max_saves (super layout))) (saves sil)) @
                     [seal layout]
           in if length lrs \<noteq> unat n_regions then Some (Inl UDS_ASSERTION_FAILED)
              else Some (Inr (n_regions, \<lparr>rt_header = zeroed_header, regions = lrs\<rparr>)))"

text \<open>The loop of \<^verbatim>\<open>write_single_file_header\<close> that encodes the regions while the
  result is still \<^verbatim>\<open>UDS_SUCCESS\<close>.\<close>

fun encode_regions :: "buffer result \<Rightarrow> layout_region list \<Rightarrow> buffer result" where
  "encode_regions r [] = r"
| "encode_regions r (region # rest) =
     encode_regions (and_then r (\<lambda>b. encode_layout_region b region)) rest"

definition write_single_file_header ::
  "('d, 'w, 'c) io_ops \<Rightarrow> (nat \<Rightarrow> bool) \<Rightarrow> index_layout \<Rightarrow> region_table \<Rightarrow> 32 word
     \<Rightarrow> 'w \<Rightarrow> 'd \<Rightarrow> unit result \<times> 'd" where
  "write_single_file_header io alloc layout table n_regions writer d =
     (let pl = (if is_converted_super_block (super layout) then 120 else 120 - 8 - 8
                :: 16 word);
          table_size = 24 + unat n_regions * 24;
          hd1 = \<lparr>magic = REGION_MAGIC, region_blocks = total_blocks layout,
                 rh_type = RH_TYPE_SUPER, rh_version = 1,
                 num_regions = ucast n_regions, payload = pl\<rparr>
      in case make_buffer alloc table_size of
           Inl e \<Rightarrow> (Inl e, d)
         | Inr b \<Rightarrow>
             (case (case encode_regions (encode_region_header b hd1) (regions table) of
                      Inl e \<Rightarrow> (Inl e, d)
                    | Inr b' \<Rightarrow> write_to_buffered_writer io writer (buffer_contents b') d) of
                (Inl e, d1) \<Rightarrow> (Inl e, d1)
              | (Inr u, d1) \<Rightarrow>
                  (case make_buffer alloc (unat pl) of
                     Inl e \<Rightarrow> (Inl e, d1)
                   | Inr b2 \<Rightarrow>
                       (case encode_super_block_data b2 (super layout) of
                          Inl e \<Rightarrow> (Inl e, d1)
                        | Inr b3 \<Rightarrow>
                            (case write_to_buffered_writer io writer
                                    (buffer_contents b3) d1 of
                               (Inl e, d2) \<Rightarrow> (Inl e, d2)
                             | (Inr u2, d2) \<Rightarrow> flush_buffered_writer io writer d2)))))"

definition save_single_file_layout ::
  "('d, 'w, 'c) io_ops \<Rightarrow> (nat \<Rightarrow> bool) \<Rightarrow> index_layout \<Rightarrow> 64 word \<Rightarrow> 'd
     \<Rightarrow> (unit result \<times> 'd) option" where
  "save_single_file_layout io alloc layout off d =
     (case make_single_file_region_table alloc layout of
        None \<Rightarrow> None
      | Some (Inl e) \<Rightarrow> Some (Inl e, d)
      | Some (Inr (n_regions, table)) \<Rightarrow>
          (case open_layout_writer io layout (header layout) off d of
             (Inl e, d1) \<Rightarrow> Some (Inl e, d1)
           | (Inr writer, d1) \<Rightarrow>
               (let (r, d2) = write_single_file_header io alloc layout table n_regions
                                writer d1
                in Some (r, free_buffered_writer io writer d2))))"

definition write_uds_index_config ::
  "('d, 'w, 'c) io_ops \<Rightarrow> index_layout \<Rightarrow> 'c \<Rightarrow> 64 word \<Rightarrow> 'd \<Rightarrow> unit result \<times> 'd" where
  "write_uds_index_config io layout cfg off d =
     (case open_layout_writer io layout (config layout) off d of
        (Inl e, d1) \<Rightarrow> (Inl e, d1)
      | (Inr writer, d1) \<Rightarrow>
          (case write_config_contents io writer cfg (version (super layout)) d1 of
             (Inl e, d2) \<Rightarrow> (Inl e, free_buffered_writer io writer d2)
           | (Inr u, d2) \<Rightarrow>
               (case flush_buffered_writer io writer d2 of
                  (Inl e, d3) \<Rightarrow> (Inl e, free_buffered_writer io writer d3)
                | (Inr u2, d3) \<Rightarrow> (UDS_SUCCESS, free_buffered_writer io writer d3))))"

text \<open>\<^verbatim>\<open>off_t\<close> is a signed 64-bit integer; its division by the block size truncates
  towards zero.\<close>

definition off_t_blocks :: "64 word \<Rightarrow> 64 word" where
  "off_t_blocks off = word_of_int (sint off sdiv 4096)"

text \<open>
  The six assignments that \<^verbatim>\<open>update_uds_layout\<close> makes to the layout before it
  writes, in their order: the two offsets, the block counts of the sub-index and of the
  volume, the total, and the version.
\<close>

definition converted_layout :: "index_layout \<Rightarrow> 64 word \<Rightarrow> 64 word \<Rightarrow> index_layout" where
  "converted_layout layout lvm_blocks offset_blocks =
     (let l1 = layout\<lparr>super := (super layout)\<lparr>start_offset := lvm_blocks\<rparr>\<rparr>;
          l2 = l1\<lparr>super := (super l1)\<lparr>volume_offset := offset_blocks\<rparr>\<rparr>;
          l3 = l2\<lparr>index := (index l2)\<lparr>sub_index := (sub_index (index l2))
                  \<lparr>num_blocks := num_blocks (sub_index (index l2)) - offset_blocks\<rparr>\<rparr>\<rparr>;
          l4 = l3\<lparr>index := (index l3)\<lparr>volume := (volume (index l3))
                  \<lparr>num_blocks := num_blocks (volume (index l3)) - offset_blocks\<rparr>\<rparr>\<rparr>;
          l5 = l4\<lparr>total_blocks := total_blocks l4 - offset_blocks\<rparr>
      in l5\<lparr>super := (super l5)\<lparr>version := 7\<rparr>\<rparr>)"

text \<open>
  \<^verbatim>\<open>update_uds_layout\<close> returns its result code, the layout as it leaves it and the
  state of the backing store. The copy of \<^verbatim>\<open>layout->index\<close> it keeps holds the pointer
  to the slot array, not the slots; neither callee stores into a slot, so the list of
  slots stands for both.
\<close>

definition update_uds_layout ::
  "('d, 'w, 'c) io_ops \<Rightarrow> (nat \<Rightarrow> bool) \<Rightarrow> index_layout \<Rightarrow> 'c \<Rightarrow> 64 word \<Rightarrow> 64 word
     \<Rightarrow> 'd \<Rightarrow> (unit result \<times> index_layout \<times> 'd) option" where
  "update_uds_layout io alloc layout cfg lvm_offset off d =
     (let offset_blocks = off_t_blocks off;
          lvm_blocks = off_t_blocks lvm_offset;
          saved_super = super layout;
          saved_index = index layout;
          l6 = converted_layout layout lvm_blocks offset_blocks
      in case save_single_file_layout io alloc l6 offset_blocks d of
           None \<Rightarrow> None
         | Some (r, d1) \<Rightarrow>
             (let (r2, d2) = (if r = UDS_SUCCESS
                                then write_uds_index_config io l6 cfg offset_blocks d1
                              else (r, d1))
              in Some (r2, l6\<lparr>index := saved_index, super := saved_super\<rparr>, d2)))"

subsection \<open>The conversion in the words of the claim\<close>

text \<open>
  What the conversion is to put on the backing store, written out for comparison with
  \<^verbatim>\<open>update_uds_layout\<close>. \<open>region_bytes\<close> is the 24-byte descriptor of a region.
  \<open>converted_table_bytes\<close> is the region table of the converted layout: a SUPER header
  of version 1 whose \<^verbatim>\<open>region_blocks\<close> is the total reduced by \<open>offset_blocks\<close>, then the
  descriptors of header, config, the sub-index and the volume (both reduced by
  \<open>offset_blocks\<close>), the save slots and the seal. \<open>converted_super_bytes\<close> is the
  superblock data with version 7 and, at its end, the volume offset \<open>offset_blocks\<close>
  and the start offset \<open>lvm_blocks\<close>.
\<close>

definition region_bytes :: "layout_region \<Rightarrow> 8 word list" where
  "region_bytes r =
     encode_uint64_le (start_block r) @ encode_uint64_le (num_blocks r) @
     encode_uint32_le (checksum r) @ encode_uint16_le (kind r) @
     encode_uint16_le (instance_no r)"

definition converted_table_bytes :: "index_layout \<Rightarrow> 64 word \<Rightarrow> 8 word list" where
  "converted_table_bytes layout offset_blocks =
     encode_uint64_le REGION_MAGIC @
     encode_uint64_le (total_blocks layout - offset_blocks) @
     encode_uint16_le RH_TYPE_SUPER @
     encode_uint16_le 1 @
     encode_uint16_le (5 + max_saves (super layout)) @
     encode_uint16_le 120 @
     concat (map region_bytes
       ([header layout, config layout,
         (sub_index (index layout))
           \<lparr>num_blocks := num_blocks (sub_index (index layout)) - offset_blocks\<rparr>,
         (volume (index layout))
           \<lparr>num_blocks := num_blocks (volume (index layout)) - offset_blocks\<rparr>] @
        map index_save (take (unat (max_saves (super layout))) (saves (index layout))) @
        [seal layout]))"

definition converted_super_bytes ::
  "super_block_data \<Rightarrow> 64 word \<Rightarrow> 64 word \<Rightarrow> 8 word list" where
  "converted_super_bytes sb lvm_blocks offset_blocks =
     magic_label sb @ nonce_info sb @
     encode_uint64_le (nonce sb) @
     encode_uint32_le 7 @
     encode_uint32_le (block_size sb) @
     encode_uint16_le (num_indexes sb) @
     encode_uint16_le (max_saves sb) @
     replicate 4 0 @
     encode_uint64_le (open_chapter_blocks sb) @
     encode_uint64_le (page_map_blocks sb) @
     encode_uint64_le offset_blocks @
     encode_uint64_le lvm_blocks"

text \<open>
  The operations on the backing store that the conversion amounts to, with the result
  code and the state they leave: a writer on the header region, shifted by
  \<open>offset_blocks\<close>, receives the region table and then the superblock data and is
  flushed; if all of that succeeds, a writer on the config region, shifted alike,
  receives the configuration for version 7 and is flushed. The first failure ends the
  sequence with its code; a writer that was opened is freed.
\<close>

definition conversion_writes ::
  "('d, 'w, 'c) io_ops \<Rightarrow> index_layout \<Rightarrow> 'c \<Rightarrow> 64 word \<Rightarrow> 64 word \<Rightarrow> 'd
     \<Rightarrow> unit result \<times> 'd" where
  "conversion_writes io layout cfg lvm_blocks offset_blocks d =
     (let bsize = (ucast (block_size (super layout)) :: 64 word)
      in case open_uds_buffered_writer io
                ((start_block (header layout) + offset_blocks) * bsize)
                (num_blocks (header layout) * bsize) d of
           (Inl e, d1) \<Rightarrow> (Inl e, d1)
         | (Inr w, d1) \<Rightarrow>
        (case write_to_buffered_writer io w
                (converted_table_bytes layout offset_blocks) d1 of
           (Inl e, d2) \<Rightarrow> (Inl e, free_buffered_writer io w d2)
         | (Inr u2, d2) \<Rightarrow>
        (case write_to_buffered_writer io w
                (converted_super_bytes (super layout) lvm_blocks offset_blocks) d2 of
           (Inl e, d3) \<Rightarrow> (Inl e, free_buffered_writer io w d3)
         | (Inr u3, d3) \<Rightarrow>
        (case flush_buffered_writer io w d3 of
           (Inl e, d4) \<Rightarrow> (Inl e, free_buffered_writer io w d4)
         | (Inr u4, d4) \<Rightarrow>
        (case open_uds_buffered_writer io
                ((start_block (config layout) + offset_blocks) * bsize)
                (num_blocks (config layout) * bsize)
                (free_buffered_writer io w d4) of
           (Inl e, d5) \<Rightarrow> (Inl e, d5)
         | (Inr w2, d5) \<Rightarrow>
        (case write_config_contents io w2 cfg 7 d5 of
           (Inl e, d6) \<Rightarrow> (Inl e, free_buffered_writer io w2 d6)
         | (Inr u6, d6) \<Rightarrow>
        (case flush_buffered_writer io w2 d6 of
           (Inl e, d7) \<Rightarrow> (Inl e, free_buffered_writer io w2 d7)
         | (Inr u7, d7) \<Rightarrow> (UDS_SUCCESS, free_buffered_writer io w2 d7))))))))"

subsection \<open>Concrete data for the layout\<close>

text \<open>
  A digest function that returns 16 zero bytes, so that every nonce it yields is 0; a
  save region; a slot stamped as a save with one zone, a given time and a given nonce;
  a sub-index with three such slots, of which the second carries a wrong nonce; and one
  whose slots are both unusable.
\<close>

definition zero_digest :: murmur128 where
  "zero_digest data seed = replicate 16 0"

definition save_region :: layout_region where
  "save_region =
     \<lparr>start_block = 10, num_blocks = 100, checksum = 0, kind = 202, instance_no = 0\<rparr>"

definition example_slot :: "64 word \<Rightarrow> 64 word \<Rightarrow> index_save_layout" where
  "example_slot t n =
     \<lparr>index_save = save_region, isl_header = zeroed_region, num_zones = 1,
      index_page_map_lr = zeroed_region, free_space = zeroed_region,
      volume_index_zones = [zeroed_region], open_chapter = Some zeroed_region,
      save_type = IS_SAVE,
      save_data = \<lparr>timestamp = t, isd_nonce = n, isd_version = 1, unused = 0\<rparr>,
      index_state_buffer = None, read = False, written = False\<rparr>"

definition example_sil :: sub_index_layout where
  "example_sil =
     \<lparr>sub_index = zeroed_region, sil_nonce = 0, volume = zeroed_region,
      saves = [example_slot 9 0, example_slot 7 1, example_slot 5 0]\<rparr>"

definition unsaved_sil :: sub_index_layout where
  "unsaved_sil =
     \<lparr>sub_index = zeroed_region, sil_nonce = 0, volume = zeroed_region,
      saves = [example_slot 0 0, example_slot 7 1]\<rparr>"

text \<open>
  A configuration over the scenario geometry and one whose page size is not a multiple
  of the block size; a volume-index collaborator that reports 7 blocks, one that fails,
  and an open-chapter collaborator that reports 5000 bytes.
\<close>

definition scenario_config :: configuration where
  "scenario_config = \<lparr>cfg_geometry = scenario_geometry\<rparr>"

definition misaligned_config :: configuration where
  "misaligned_config = \<lparr>cfg_geometry = scenario_geometry\<lparr>bytes_per_page := 1000\<rparr>\<rparr>"

definition seven_save_blocks :: "configuration \<Rightarrow> 64 word \<Rightarrow> 64 word result" where
  "seven_save_blocks cfg bsize = Inr 7"

definition failing_save_blocks :: "configuration \<Rightarrow> 64 word \<Rightarrow> 64 word result" where
  "failing_save_blocks cfg bsize = Inl UDS_INVALID_ARGUMENT"

definition open_chapter_5000 :: "geometry \<Rightarrow> 64 word" where
  "open_chapter_5000 g = 5000"

text \<open>
  A superblock with two save slots, a layout over it, a slot as it stands before its
  table is read (only its save region is known), and three region tables for that slot:
  one that holds a single SCRATCH region under an UNSAVED header, one with no region
  under an UNSAVED header, and one with no region under a SAVE header.
\<close>

definition SINGLE_FILE_MAGIC_1 :: "8 word list" where
  "SINGLE_FILE_MAGIC_1 = map of_char ''*ALBIREO*SINGLE*FILE*LAYOUT*001*''"

definition example_super :: super_block_data where
  "example_super =
     \<lparr>magic_label = SINGLE_FILE_MAGIC_1, nonce_info = replicate 32 0, nonce = 0,
      version = 3, block_size = 4096,
      num_indexes = 1, max_saves = 2, open_chapter_blocks = 3, page_map_blocks = 2,
      volume_offset = 0, start_offset = 0\<rparr>"

definition example_layout :: index_layout where
  "example_layout =
     \<lparr>factory_size = 0, offset = 0, super = example_super,
      header = zeroed_region, config = zeroed_region,
      index = \<lparr>sub_index = save_region\<lparr>num_blocks := 1000\<rparr>, sil_nonce = 0,
               volume = save_region\<lparr>num_blocks := 800\<rparr>,
               saves = [example_slot 9 0, example_slot 5 0]\<rparr>,
      seal = zeroed_region, total_blocks = 1003\<rparr>"

definition unread_slot :: index_save_layout where
  "unread_slot =
     \<lparr>index_save = save_region, isl_header = zeroed_region, num_zones = 0,
      index_page_map_lr = zeroed_region, free_space = zeroed_region,
      volume_index_zones = [], open_chapter = None, save_type = IS_SAVE,
      save_data = \<lparr>timestamp = 0, isd_nonce = 0, isd_version = 0, unused = 0\<rparr>,
      index_state_buffer = None, read = False, written = False\<rparr>"

text \<open>The slot \<open>unread_slot\<close> once carved afresh: a header block, two blocks of page
  map and the remaining 97 blocks as scratch, with a given save type.\<close>

definition carved_slot :: "index_save_type \<Rightarrow> index_save_layout" where
  "carved_slot t =
     unread_slot\<lparr>isl_header := \<lparr>start_block = 10, num_blocks = 1, checksum = 0, kind = 1,
                                  instance_no = 65535\<rparr>,
                  index_page_map_lr := \<lparr>start_block = 11, num_blocks = 2, checksum = 0,
                                         kind = 301, instance_no = 65535\<rparr>,
                  free_space := \<lparr>start_block = 13, num_blocks = 97, checksum = 0, kind = 0,
                                  instance_no = 65535\<rparr>,
                  save_type := t\<rparr>"

definition zeroed_save_data :: index_save_data where
  "zeroed_save_data = \<lparr>timestamp = 0, isd_nonce = 0, isd_version = 0, unused = 0\<rparr>"

definition scratch_only_table :: region_table where
  "scratch_only_table =
     \<lparr>rt_header = \<lparr>magic = REGION_MAGIC, region_blocks = 100, rh_type = RH_TYPE_UNSAVED,
                   rh_version = 1, num_regions = 1, payload = 0\<rparr>,
      regions = [\<lparr>start_block = 10, num_blocks = 100, checksum = 0, kind = 0,
                  instance_no = 65535\<rparr>]\<rparr>"

definition empty_unsaved_table :: region_table where
  "empty_unsaved_table =
     \<lparr>rt_header = \<lparr>magic = REGION_MAGIC, region_blocks = 100, rh_type = RH_TYPE_UNSAVED,
                   rh_version = 1, num_regions = 0, payload = 0\<rparr>,
      regions = []\<rparr>"

definition empty_save_table :: region_table where
  "empty_save_table =
     \<lparr>rt_header = \<lparr>magic = REGION_MAGIC, region_blocks = 100, rh_type = RH_TYPE_SAVE,
                   rh_version = 1, num_regions = 0, payload = 0\<rparr>,
      regions = []\<rparr>"

text \<open>
  A backing store that records what is written to it: its state is the list of byte
  strings written so far, every operation succeeds, and the configuration is written as
  the single byte of the superblock version it is given.
\<close>

definition recording_io :: "(8 word list list, unit, unit) io_ops" where
  "recording_io =
     \<lparr>open_uds_buffered_writer = (\<lambda>start size0 d. (Inr (), d)),
      write_to_buffered_writer = (\<lambda>w bytes d. (UDS_SUCCESS, d @ [bytes])),
      flush_buffered_writer = (\<lambda>w d. (UDS_SUCCESS, d)),
      free_buffered_writer = (\<lambda>w d. d),
      write_config_contents = (\<lambda>w c v d. (UDS_SUCCESS, d @ [[ucast v]]))\<rparr>"

definition always_allocates :: "nat \<Rightarrow> bool" where
  "always_allocates n = True"

section \<open>Properties of the index page map\<close>

subsection \<open>Word arithmetic of the slot computation\<close>

lemma unat_pred_pages:
  fixes p P :: "32 word"
  assumes "p < P"
  shows "unat (P - 1) = unat P - 1" "unat p \<le> unat (P - 1)"
proof -
  from assms have "P \<noteq> 0" by (auto simp: word_less_nat_alt)
  then show a: "unat (P - 1) = unat P - 1"
    by (simp add: unat_minus_one)
  from assms show "unat p \<le> unat (P - 1)" unfolding a
    by (simp add: word_less_nat_alt)
qed

lemma slot_bound:
  fixes c C p P :: "32 word"
  assumes "c < C" "unat p \<le> unat (P - 1)" 
    and "unat C * unat (P - 1) < 2 ^ 32"
  shows "unat c * unat (P - 1) + unat p \<le> unat C * unat (P - 1)"
proof -
  from assms(1) have "Suc (unat c) \<le> unat C" by (simp add: word_less_nat_alt)
  then have "Suc (unat c) * unat (P - 1) \<le> unat C * unat (P - 1)"
    by (rule mult_le_mono1)
  with assms(2) show ?thesis by simp
qed

lemma unat_slot:
  fixes c C p P :: "32 word"
  assumes "c < C" "unat p \<le> unat (P - 1)"
    and "unat C * unat (P - 1) < 2 ^ 32"
  shows "unat (c * (P - 1) + p) = unat c * unat (P - 1) + unat p"
proof -
  have b: "unat c * unat (P - 1) + unat p < 2 ^ 32"
    using slot_bound [OF assms] assms(3) by simp
  then have "unat c * unat (P - 1) < 2 ^ 32" by simp
  then have "unat (c * (P - 1)) = unat c * unat (P - 1)"
    by (simp add: unat_word_ariths)
  with b show ?thesis by (simp add: unat_word_ariths)
qed



lemma unat_ucast_32_64: "unat (ucast (w :: 32 word) :: 64 word) = unat w"
proof -
  have "unat w < 2 ^ 32" using unsigned_less [of w] by simp
  then have "unat w < 2 ^ 64" by simp
  then show ?thesis
    by (simp add: unsigned_ucast_eq take_bit_nat_eq_self)
qed

lemma unat_ucast_16_32: "unat (ucast (e :: 16 word) :: 32 word) = unat e"
proof -
  have "unat e < 2 ^ 16" using unsigned_less [of e] by simp
  then have "unat e < 2 ^ 32" by simp
  then show ?thesis
    by (simp add: unsigned_ucast_eq take_bit_nat_eq_self)
qed

lemma unat_ucast_32_16:
  assumes "unat (l :: 32 word) < 65536"
  shows "unat (ucast l :: 16 word) = unat l"
  using assms by (simp add: unsigned_ucast_eq take_bit_nat_eq_self)

lemma list_fits_u16:
  fixes l D :: "32 word"
  assumes "l < D" "D - 1 \<le> 65535"
  shows "unat l < 65536"
proof -
  from assms(1) have "D \<noteq> 0" by (auto simp: word_less_nat_alt)
  then have "unat (D - 1) = unat D - 1" by (simp add: unat_minus_one)
  moreover from assms(2) have "unat (D - 1) \<le> 65535" by (simp add: word_le_nat_alt)
  moreover from assms(1) have "unat l < unat D" by (simp add: word_less_nat_alt)
  ultimately show ?thesis by simp
qed

lemma length_entries_ok:
  assumes "index_page_map_ok m"
  shows "length (entries m) = unat (chapters_per_volume (geometry m)) *
        unat (index_pages_per_chapter (geometry m) - 1)"
proof -
  from assms have b: "unat (chapters_per_volume (geometry m)) *
        unat (index_pages_per_chapter (geometry m) - 1) < 2 ^ 32"
    and l: "length (entries m) = unat (num_entries (geometry m))"
    by (simp_all add: index_page_map_ok_def)
  from b have "unat (chapters_per_volume (geometry m) * (index_pages_per_chapter (geometry m) - 1))
     = unat (chapters_per_volume (geometry m)) * unat (index_pages_per_chapter (geometry m) - 1)"
    by (simp add: unat_word_ariths)
  with l show ?thesis by (simp add: num_entries_def unat_ucast_32_64)
qed


lemma prev_index:
  fixes c C p P :: "32 word"
  assumes "c < C" "unat p \<le> unat (P - 1)" "p \<noteq> 0"
    and "unat C * unat (P - 1) < 2 ^ 32"
  shows "unat (c * (P - 1) + p - 1) = unat c * unat (P - 1) + unat p - 1"
    and "unat c * unat (P - 1) + unat p - 1 < unat C * unat (P - 1)"
proof -
  have s: "unat (c * (P - 1) + p) = unat c * unat (P - 1) + unat p"
    by (rule unat_slot [OF assms(1,2,4)])
  from assms(3) have "unat p \<noteq> 0" by (simp add: unat_eq_0)
  with s have "c * (P - 1) + p \<noteq> 0" by (metis add_is_0 unat_eq_0)
  then show "unat (c * (P - 1) + p - 1) = unat c * unat (P - 1) + unat p - 1"
    by (simp add: unat_minus_one s)
  from slot_bound [OF assms(1,2,4)] \<open>unat p \<noteq> 0\<close>
  show "unat c * unat (P - 1) + unat p - 1 < unat C * unat (P - 1)" by simp
qed

lemma word_succ_le_iff:
  fixes e :: "16 word" and l :: "32 word"
  shows "((ucast e :: 32 word) + 1 \<le> l) = ((ucast e :: 32 word) < l)"
proof -
  have "unat e < 2 ^ 16" using unsigned_less [of e] by simp
  then have "unat (ucast e :: 32 word) + unat (1 :: 32 word) < 2 ^ 32"
    by (simp add: unat_ucast_16_32)
  then have "unat ((ucast e :: 32 word) + 1) = unat (ucast e :: 32 word) + 1"
    by (simp add: unat_word_ariths)
  then show ?thesis by (auto simp: word_le_nat_alt word_less_nat_alt)
qed

lemma ucast_list_roundtrip:
  fixes l D :: "32 word"
  assumes "l < D" "D - 1 \<le> 65535"
  shows "(ucast (ucast l :: 16 word) :: 32 word) = l"
proof -
  have "unat l < 65536" by (rule list_fits_u16 [OF assms])
  then have "unat (ucast (ucast l :: 16 word) :: 32 word) = unat l"
    by (simp add: unat_ucast_16_32 unat_ucast_32_16)
  then show ?thesis by (simp add: word_unat_eq_iff)
qed

lemma le_pred_dlpc:
  fixes l D :: "32 word"
  assumes "l < D"
  shows "l \<le> D - 1"
proof -
  from assms have "D \<noteq> 0" by (auto simp: word_less_nat_alt)
  then have "unat (D - 1) = unat D - 1" by (simp add: unat_minus_one)
  with assms show ?thesis by (simp add: word_le_nat_alt word_less_nat_alt)
qed


subsection \<open>What update and bounds compute on a well-formed map\<close>

lemma update_not_last:
  assumes ok: "index_page_map_ok m" and rng: "in_range (geometry m) c p l"
    and nl: "p \<noteq> index_pages_per_chapter (geometry m) - 1"
  shows "unat (c * (index_pages_per_chapter (geometry m) - 1) + p) < length (entries m)"
    and "update_index_page_map m v c p l =
      Some (UDS_SUCCESS, m\<lparr>last_update := v,
         entries := (entries m)[unat (c * (index_pages_per_chapter (geometry m) - 1) + p)
                       := ucast l]\<rparr>)"
proof -
  let ?P = "index_pages_per_chapter (geometry m)"
  let ?C = "chapters_per_volume (geometry m)"
  from rng have c: "c < ?C" and p: "p < ?P" and l: "l < delta_lists_per_chapter (geometry m)"
    by (simp_all add: in_range_def)
  from ok have b: "unat ?C * unat (?P - 1) < 2 ^ 32" by (simp add: index_page_map_ok_def)
  have ple: "unat p \<le> unat (?P - 1)" by (rule unat_pred_pages(2) [OF p])
  from nl have "unat p \<noteq> unat (?P - 1)" by (simp add: word_unat_eq_iff)
  with ple have plt: "Suc (unat p) \<le> unat (?P - 1)" by simp
  have s: "unat (c * (?P - 1) + p) = unat c * unat (?P - 1) + unat p"
    by (rule unat_slot [OF c ple b])
  from c have "Suc (unat c) \<le> unat ?C" by (simp add: word_less_nat_alt)
  then have "Suc (unat c) * unat (?P - 1) \<le> unat ?C * unat (?P - 1)"
    by (rule mult_le_mono1)
  with plt have "unat c * unat (?P - 1) + unat p < unat ?C * unat (?P - 1)" by simp
  then show lt: "unat (c * (?P - 1) + p) < length (entries m)"
    by (simp add: s length_entries_ok [OF ok])
  from c p l have "\<not> ?C \<le> c" "\<not> ?P \<le> p" "\<not> delta_lists_per_chapter (geometry m) \<le> l"
    by (simp_all add: not_le)
  with nl lt show "update_index_page_map m v c p l =
      Some (UDS_SUCCESS, m\<lparr>last_update := v,
         entries := (entries m)[unat (c * (?P - 1) + p) := ucast l]\<rparr>)"
    by (simp add: update_index_page_map_def Let_def)
qed

lemma update_last:
  assumes rng: "in_range (geometry m) c p l"
    and la: "p = index_pages_per_chapter (geometry m) - 1"
  shows "update_index_page_map m v c p l = Some (UDS_SUCCESS, m\<lparr>last_update := v\<rparr>)"
proof -
  from rng have "\<not> chapters_per_volume (geometry m) \<le> c"
    "\<not> index_pages_per_chapter (geometry m) \<le> p"
    "\<not> delta_lists_per_chapter (geometry m) \<le> l"
    by (simp_all add: in_range_def not_le)
  with la show ?thesis
    by (simp add: update_index_page_map_def Let_def)
qed


lemma bounds_value:
  assumes c: "c < chapters_per_volume (geometry m)"
    and p: "p < index_pages_per_chapter (geometry m)"
    and lo: "p \<noteq> 0 \<Longrightarrow>
       unat (c * (index_pages_per_chapter (geometry m) - 1) + p - 1) < length (entries m)"
    and hi: "p \<noteq> index_pages_per_chapter (geometry m) - 1 \<Longrightarrow>
       unat (c * (index_pages_per_chapter (geometry m) - 1) + p) < length (entries m)"
  shows "get_list_number_bounds m c p =
     Some (Inr \<lparr>lowest_list =
                  (if p = 0 then 0
                   else ucast (entries m !
                          unat (c * (index_pages_per_chapter (geometry m) - 1) + p - 1)) + 1),
                highest_list =
                  (if p = index_pages_per_chapter (geometry m) - 1
                     then delta_lists_per_chapter (geometry m) - 1
                   else ucast (entries m !
                          unat (c * (index_pages_per_chapter (geometry m) - 1) + p)))\<rparr>)"
proof -
  let ?P = "index_pages_per_chapter (geometry m)"
  have l: "(if p = 0 then Some 0
            else map_option (\<lambda>e. ucast e + 1) (read_entry m (c * (?P - 1) + p - 1))) =
           Some (if p = 0 then (0 :: 32 word)
                 else ucast (entries m ! unat (c * (?P - 1) + p - 1)) + 1)"
    using lo by (cases "p = 0") (simp_all add: read_entry_def)
  have h: "(if p = ?P - 1 then Some (delta_lists_per_chapter (geometry m) - 1)
            else map_option ucast (read_entry m (c * (?P - 1) + p))) =
           Some (if p = ?P - 1 then delta_lists_per_chapter (geometry m) - 1
                 else ucast (entries m ! unat (c * (?P - 1) + p)))"
    using hi by (cases "p = ?P - 1") (simp_all add: read_entry_def)
  show ?thesis
    unfolding get_list_number_bounds_def Let_def l h using c p by simp
qed

lemma prev_in_range:
  assumes ok: "index_page_map_ok m" and rng: "in_range (geometry m) c p l"
    and nz: "p \<noteq> 0"
  shows "unat (c * (index_pages_per_chapter (geometry m) - 1) + p - 1) < length (entries m)"
proof -
  let ?P = "index_pages_per_chapter (geometry m)"
  let ?C = "chapters_per_volume (geometry m)"
  from rng have c: "c < ?C" and p: "p < ?P" by (simp_all add: in_range_def)
  from ok have b: "unat ?C * unat (?P - 1) < 2 ^ 32" by (simp add: index_page_map_ok_def)
  have ple: "unat p \<le> unat (?P - 1)" by (rule unat_pred_pages(2) [OF p])
  from prev_index [OF c ple nz b] show ?thesis
    by (simp add: length_entries_ok [OF ok])
qed

text \<open>
  Claim C1, as amended. On a map as \<^verbatim>\<open>make_index_page_map\<close> leaves it and for a chapter,
  page and delta list in range, \<^verbatim>\<open>update_index_page_map\<close> succeeds and the following
  \<^verbatim>\<open>get_list_number_bounds\<close> on the same chapter and page succeeds with
  \<open>list \<le> highest_list\<close>. The lower bound is read from the entry of the preceding page,
  which the update does not touch: \<open>lowest_list \<le> list\<close> holds exactly when the page is
  page 0 or the boundary stored for the preceding page is below \<open>list\<close>.
\<close>

theorem update_then_bounds:
  assumes ok: "index_page_map_ok m" and rng: "in_range (geometry m) c p l"
  shows "\<exists>m' b. update_index_page_map m v c p l = Some (UDS_SUCCESS, m') \<and>
           get_list_number_bounds m' c p = Some (Inr b) \<and>
           l \<le> highest_list b \<and>
           (lowest_list b \<le> l) =
             (p = 0 \<or> (\<exists>e. read_entry m
                 (c * (index_pages_per_chapter (geometry m) - 1) + p - 1) = Some e \<and>
                 ucast e < l))"
proof -
  let ?P = "index_pages_per_chapter (geometry m)"
  let ?C = "chapters_per_volume (geometry m)"
  let ?D = "delta_lists_per_chapter (geometry m)"
  let ?prev = "c * (?P - 1) + p - 1"
  let ?cur = "c * (?P - 1) + p"
  let ?lo = "if p = 0 then (0 :: 32 word) else ucast (entries m ! unat ?prev) + 1"
  from rng have c: "c < ?C" and p: "p < ?P" and l: "l < ?D"
    by (simp_all add: in_range_def)
  from ok have d: "?D - 1 \<le> 65535" by (simp add: index_page_map_ok_def)
  have prev: "p \<noteq> 0 \<Longrightarrow> unat ?prev < length (entries m)"
    by (rule prev_in_range [OF ok rng])
  have low: "(?lo \<le> l) = (p = 0 \<or> (\<exists>e. read_entry m ?prev = Some e \<and> ucast e < l))"
  proof (cases "p = 0")
    case True
    then show ?thesis by simp
  next
    case False
    with prev have "read_entry m ?prev = Some (entries m ! unat ?prev)"
      by (simp add: read_entry_def)
    with False show ?thesis by (simp add: word_succ_le_iff)
  qed
  show ?thesis
  proof (cases "p = ?P - 1")
    case True
    let ?m' = "m\<lparr>last_update := v\<rparr>"
    have u: "update_index_page_map m v c p l = Some (UDS_SUCCESS, ?m')"
      by (rule update_last [OF rng True])
    have "get_list_number_bounds ?m' c p =
       Some (Inr \<lparr>lowest_list = ?lo, highest_list = ?D - 1\<rparr>)"
      using bounds_value [of c ?m' p] c p prev True by simp
    moreover have "l \<le> ?D - 1" by (rule le_pred_dlpc [OF l])
    ultimately show ?thesis
      using u low by simp
  next
    case False
    let ?m' = "m\<lparr>last_update := v, entries := (entries m)[unat ?cur := ucast l]\<rparr>"
    have cur: "unat ?cur < length (entries m)"
      and u: "update_index_page_map m v c p l = Some (UDS_SUCCESS, ?m')"
      using update_not_last [OF ok rng False] by simp_all
    have same: "p \<noteq> 0 \<Longrightarrow> entries ?m' ! unat ?prev = entries m ! unat ?prev"
    proof -
      assume nz: "p \<noteq> 0"
      have ple: "unat p \<le> unat (?P - 1)" by (rule unat_pred_pages(2) [OF p])
      from ok have b: "unat ?C * unat (?P - 1) < 2 ^ 32" by (simp add: index_page_map_ok_def)
      from nz have "unat p \<noteq> 0" by (simp add: unat_eq_0)
      with prev_index(1) [OF c ple nz b] unat_slot [OF c ple b]
      have "unat ?prev \<noteq> unat ?cur" by simp
      then show "entries ?m' ! unat ?prev = entries m ! unat ?prev" by simp
    qed
    have lo': "(if p = 0 then (0 :: 32 word) else ucast (entries ?m' ! unat ?prev) + 1) = ?lo"
      using same by (cases "p = 0") simp_all
    have hi': "(ucast (entries ?m' ! unat ?cur) :: 32 word) = l"
      using cur ucast_list_roundtrip [OF l d] by simp
    have "get_list_number_bounds ?m' c p =
       Some (Inr \<lparr>lowest_list =
                    (if p = 0 then 0 else ucast (entries ?m' ! unat ?prev) + 1),
                  highest_list = ucast (entries ?m' ! unat ?cur)\<rparr>)"
      using bounds_value [of c ?m' p] c p prev cur False by simp
    then have "get_list_number_bounds ?m' c p =
       Some (Inr \<lparr>lowest_list = ?lo, highest_list = l\<rparr>)"
      by (simp only: lo' hi')
    then show ?thesis
      using u low by simp
  qed
qed


subsection \<open>The scenario maps\<close>

lemma replicate_8_entries: "replicate 8 (0 :: 16 word) = [0, 0, 0, 0, 0, 0, 0, 0]"
  by (simp add: eval_nat_numeral)

lemma scenario_map_made: "make_index_page_map (\<lambda>n. True) scenario_geometry = Inr scenario_map"
  by (simp add: make_index_page_map_def scenario_geometry_def scenario_map_def num_entries_def
      replicate_8_entries)

lemma scenario_map_ok: "index_page_map_ok scenario_map"
  by (simp add: index_page_map_ok_def scenario_geometry_def scenario_map_def num_entries_def)

lemma scenario_map_3_ok: "index_page_map_ok scenario_map_3"
  by (simp add: index_page_map_ok_def scenario_geometry_def scenario_map_3_def num_entries_def)

text \<open>
  The amended claim C1 at the scenario map whose page 0 of chapter 0 ends at delta list 3:
  recording delta list 7 for page 1.
\<close>

theorem update_then_bounds_witness:
  "index_page_map_ok scenario_map_3 \<and> in_range (geometry scenario_map_3) 0 1 7 \<and>
   (\<exists>m' b. update_index_page_map scenario_map_3 1 0 1 7 = Some (UDS_SUCCESS, m') \<and>
           get_list_number_bounds m' 0 1 = Some (Inr b) \<and>
           7 \<le> highest_list b \<and>
           (lowest_list b \<le> 7) =
             (1 = (0 :: 32 word) \<or> (\<exists>e. read_entry scenario_map_3
                 (0 * (index_pages_per_chapter (geometry scenario_map_3) - 1) + 1 - 1) = Some e \<and>
                 ucast e < (7 :: 32 word))))"
proof -
  have rng: "in_range (geometry scenario_map_3) 0 1 7"
    by (simp add: in_range_def scenario_map_3_def scenario_geometry_def)
  from update_then_bounds [OF scenario_map_3_ok rng, of 1] scenario_map_3_ok rng
  show ?thesis by blast
qed

text \<open>
  Claim C1 as stated fails on a freshly made map (all entries 0): after recording delta
  list 0 for page 1 of chapter 0, the bounds of that page are \<open>(1, 0)\<close>, so
  \<open>lowest_list \<le> list\<close> is false.
\<close>

theorem update_then_bounds_counterexample:
  "make_index_page_map (\<lambda>n. True) scenario_geometry = Inr scenario_map \<and>
   in_range scenario_geometry 0 1 0 \<and>
   update_index_page_map scenario_map 1 0 1 0 =
     Some (UDS_SUCCESS, scenario_map\<lparr>last_update := 1\<rparr>) \<and>
   get_list_number_bounds (scenario_map\<lparr>last_update := 1\<rparr>) 0 1 =
     Some (Inr \<lparr>lowest_list = 1, highest_list = 0\<rparr>) \<and>
   \<not> ((1 :: 32 word) \<le> 0)"
  by (simp add: make_index_page_map_def update_index_page_map_def get_list_number_bounds_def
      read_entry_def in_range_def num_entries_def scenario_geometry_def scenario_map_def Let_def
      replicate_8_entries word_le_nat_alt word_less_nat_alt)

text \<open>
  Claim C8. An in-range update whose page is the last index page of the chapter returns
  success and leaves the entries unchanged, and the following bounds call on that chapter
  and page returns \<open>delta_lists_per_chapter - 1\<close> as the highest list.
\<close>

theorem update_last_page_writes_nothing:
  assumes ok: "index_page_map_ok m" and rng: "in_range (geometry m) c p l"
    and la: "p = index_pages_per_chapter (geometry m) - 1"
  shows "\<exists>m' b. update_index_page_map m v c p l = Some (UDS_SUCCESS, m') \<and>
           entries m' = entries m \<and>
           get_list_number_bounds m' c p = Some (Inr b) \<and>
           highest_list b = delta_lists_per_chapter (geometry m) - 1"
proof -
  let ?m' = "m\<lparr>last_update := v\<rparr>"
  from rng have c: "c < chapters_per_volume (geometry m)"
    and p: "p < index_pages_per_chapter (geometry m)"
    by (simp_all add: in_range_def)
  have u: "update_index_page_map m v c p l = Some (UDS_SUCCESS, ?m')"
    by (rule update_last [OF rng la])
  have prev: "p \<noteq> 0 \<Longrightarrow>
      unat (c * (index_pages_per_chapter (geometry m) - 1) + p - 1) < length (entries m)"
    by (rule prev_in_range [OF ok rng])
  have "\<exists>lo. get_list_number_bounds ?m' c p =
       Some (Inr \<lparr>lowest_list = lo,
                  highest_list = delta_lists_per_chapter (geometry m) - 1\<rparr>)"
    using bounds_value [of c ?m' p] c p prev la by simp
  with u show ?thesis by auto
qed

text \<open>Claim C8 at the scenario map: page 2 is the last of its 3 pages.\<close>

theorem update_last_page_writes_nothing_witness:
  "index_page_map_ok scenario_map_3 \<and> in_range (geometry scenario_map_3) 0 2 9 \<and>
   (2 :: 32 word) = index_pages_per_chapter (geometry scenario_map_3) - 1 \<and>
   (\<exists>m' b. update_index_page_map scenario_map_3 2 0 2 9 = Some (UDS_SUCCESS, m') \<and>
           entries m' = entries scenario_map_3 \<and>
           get_list_number_bounds m' 0 2 = Some (Inr b) \<and>
           highest_list b = delta_lists_per_chapter (geometry scenario_map_3) - 1)"
proof -
  have rng: "in_range (geometry scenario_map_3) 0 2 9"
    by (simp add: in_range_def scenario_map_3_def scenario_geometry_def)
  have la: "(2 :: 32 word) = index_pages_per_chapter (geometry scenario_map_3) - 1"
    by (simp add: scenario_map_3_def scenario_geometry_def)
  from update_last_page_writes_nothing [OF scenario_map_3_ok rng la, of 2]
    scenario_map_3_ok rng la
  show ?thesis by blast
qed

text \<open>
  Claim C9. \<^verbatim>\<open>last_update\<close> is assigned before the range checks: an update that is out
  of range returns \<open>UDS_INVALID_ARGUMENT\<close> together with a map whose only change is
  \<open>last_update = vchap\<close>, and whatever an update returns, the map it leaves has
  \<open>last_update = vchap\<close>.
\<close>

theorem update_sets_last_update_first:
  "(\<not> in_range (geometry m) c p l \<longrightarrow>
      update_index_page_map m v c p l =
        Some (Inl UDS_INVALID_ARGUMENT, m\<lparr>last_update := v\<rparr>)) \<and>
   (\<forall>r m'. update_index_page_map m v c p l = Some (r, m') \<longrightarrow> last_update m' = v)"
  by (auto simp: update_index_page_map_def in_range_def Let_def not_less split: if_splits)

text \<open>Claim C9 at the scenario map: chapter 4 is out of range for 4 chapters, and
  \<^verbatim>\<open>last_update\<close> moves from 1 to 77 although the update is rejected.\<close>

theorem update_sets_last_update_first_witness:
  "\<not> in_range (geometry scenario_map_3) 4 0 0 \<and>
   update_index_page_map scenario_map_3 77 4 0 0 =
     Some (Inl UDS_INVALID_ARGUMENT, scenario_map_3\<lparr>last_update := 77\<rparr>) \<and>
   last_update scenario_map_3 = 1 \<and>
   last_update (scenario_map_3\<lparr>last_update := 77\<rparr>) = 77"
proof -
  have nr: "\<not> in_range (geometry scenario_map_3) 4 0 0"
    by (simp add: in_range_def scenario_map_3_def scenario_geometry_def)
  from update_sets_last_update_first [of scenario_map_3 4 0 0 77] nr
  show ?thesis by (simp add: scenario_map_3_def)
qed

section \<open>Properties of the index layout\<close>

subsection \<open>The example data\<close>

lemma hash_stuff_zero_digest: "hash_stuff zero_digest start data = 0"
  by (simp add: hash_stuff_def zero_digest_def get_unaligned_le64_def eval_nat_numeral)

lemma secondary_zero_digest: "generate_secondary_nonce zero_digest n data = 0"
  by (simp add: generate_secondary_nonce_def hash_stuff_zero_digest)

lemma validate_example_slot:
  "validate_index_save_layout zero_digest (example_slot t n) 0 =
     (if t = 0 \<or> n \<noteq> 0 then Inl UDS_BAD_STATE else Inr t)"
  by (simp add: validate_index_save_layout_def example_slot_def
      generate_index_save_nonce_def secondary_zero_digest)

lemma select_oldest_example:
  "select_oldest_index_save_layout zero_digest example_sil 3 = Some (Inr 1)"
  by (simp add: select_oldest_index_save_layout_def example_sil_def validate_example_slot
      Let_def)

lemma select_latest_example:
  "select_latest_index_save_layout zero_digest example_sil 3 = Some (Inr 0)"
  by (simp add: select_latest_index_save_layout_def example_sil_def validate_example_slot
      Let_def)

lemma select_latest_unsaved:
  "select_latest_index_save_layout zero_digest unsaved_sil 2 =
     Some (Inl UDS_INDEX_NOT_SAVED_CLEANLY)"
  by (simp add: select_latest_index_save_layout_def unsaved_sil_def validate_example_slot
      Let_def)

subsection \<open>Validating a save\<close>

lemma encode_uint32_le_0: "encode_uint32_le 0 = replicate 4 0"
  by (simp add: encode_uint32_le_def eval_nat_numeral)

lemma generate_index_save_nonce_expected:
  "generate_index_save_nonce h n slot = expected_save_nonce h n slot"
  by (simp add: generate_index_save_nonce_def expected_save_nonce_def
      encode_index_save_data_def encode_uint32_le_0 Let_def)

text \<open>
  Claim C2. \<^verbatim>\<open>validate_index_save_layout\<close> returns \<open>UDS_BAD_STATE\<close> unless the slot's
  save type is \<open>IS_SAVE\<close>, its zone count is positive, its timestamp is not 0 and its
  stored nonce is the secondary nonce of the sub-index nonce over the encoding of the
  save data with the nonce field set to 0, followed by the slot's start block; when all
  four hold it returns success and yields the slot's timestamp.
\<close>

theorem validate_save_spec:
  "validate_index_save_layout h slot n =
     (if save_type slot = IS_SAVE \<and> 0 < num_zones slot \<and>
         timestamp (save_data slot) \<noteq> 0 \<and>
         isd_nonce (save_data slot) = expected_save_nonce h n slot
        then Inr (timestamp (save_data slot))
      else Inl UDS_BAD_STATE)"
proof (cases "save_type slot")
  case IS_SAVE
  then show ?thesis
    by (simp add: validate_index_save_layout_def generate_index_save_nonce_expected
        word_greater_zero_iff)
next
  case NO_SAVE
  then show ?thesis
    by (simp add: validate_index_save_layout_def)
qed

text \<open>
  Claim C2 at two example slots under the digest function with zero digests, for which
  the expected nonce is 0: the slot stamped 9 with nonce 0 validates and yields 9, the
  slot stamped 7 with nonce 1 is rejected.
\<close>

theorem validate_save_spec_witness:
  "expected_save_nonce zero_digest 0 (example_slot 9 0) = 0 \<and>
   validate_index_save_layout zero_digest (example_slot 9 0) 0 = Inr 9 \<and>
   validate_index_save_layout zero_digest (example_slot 7 1) 0 = Inl UDS_BAD_STATE"
proof -
  have e: "expected_save_nonce zero_digest 0 s = 0" for s
    by (simp add: expected_save_nonce_def secondary_zero_digest)
  from validate_save_spec [of zero_digest "example_slot 9 0" 0]
    validate_save_spec [of zero_digest "example_slot 7 1" 0] e
  show ?thesis by (simp add: example_slot_def)
qed

subsection \<open>The nonce of the sub-index\<close>

text \<open>
  The nonce that \<^verbatim>\<open>define_sub_index_nonce\<close> stores is the first secondary nonce when
  that is not 0 and the recomputed one otherwise: it is 0 exactly when the secondary
  nonce over the encoded start block and index id is 0 for the base \<open>nonce\<close> and for the
  base \<open>~nonce + 1\<close> alike. Whether that happens rests on MurmurHash3, which is not part
  of these sources and stays the parameter \<open>h\<close>.
\<close>

lemma sub_index_nonce_zero_iff:
  "(sil_nonce (index (define_sub_index_nonce h layout index_id)) = 0) =
     (generate_secondary_nonce h (nonce (super layout))
        (sub_index_nonce_buffer (start_block (sub_index (index layout))) index_id) = 0 \<and>
      generate_secondary_nonce h (NOT (nonce (super layout)) + 1)
        (sub_index_nonce_buffer (start_block (sub_index (index layout))) index_id) = 0)"
  by (auto simp: define_sub_index_nonce_def Let_def)

text \<open>
  For the primary nonce 0 the recomputation uses the same base, since \<open>~0 + 1 = 0\<close>:
  the stored nonce is then the first secondary nonce, zero or not.
\<close>

lemma twos_complement_of_zero: "NOT (0 :: 64 word) + 1 = 0"
  by simp

lemma sub_index_nonce_retry_at_zero:
  "nonce (super layout) = 0 \<Longrightarrow>
   sil_nonce (index (define_sub_index_nonce h layout index_id)) =
     generate_secondary_nonce h 0
       (sub_index_nonce_buffer (start_block (sub_index (index layout))) index_id)"
  by (simp add: define_sub_index_nonce_def Let_def)

subsection \<open>Size computation\<close>

text \<open>
  Claim C6, as amended. \<^verbatim>\<open>compute_sizes\<close> fails with \<open>UDS_INCORRECT_ALIGNMENT\<close>
  whenever \<^verbatim>\<open>bytes_per_page\<close> is not a multiple of the block size. When it is a
  multiple, \<^verbatim>\<open>compute_sizes\<close> returns the error of
  \<^verbatim>\<open>compute_volume_index_save_blocks\<close> if that collaborator fails, and otherwise returns
  sizes with \<open>save_blocks = 1 + volume_index_blocks + page_map_blocks +
  open_chapter_blocks\<close>, \<open>sub_index_blocks = volume_blocks + 2 * save_blocks\<close> and
  \<open>total_blocks = 3 + sub_index_blocks\<close>, in 64-bit arithmetic.
\<close>

theorem compute_sizes_spec:
  "(bytes_per_page (cfg_geometry cfg) mod UDS_BLOCK_SIZE \<noteq> 0 \<longrightarrow>
      compute_sizes vib ocs cfg = Inl UDS_INCORRECT_ALIGNMENT) \<and>
   (bytes_per_page (cfg_geometry cfg) mod UDS_BLOCK_SIZE = 0 \<longrightarrow>
      (\<forall>e. vib cfg UDS_BLOCK_SIZE = Inl e \<longrightarrow> compute_sizes vib ocs cfg = Inl e) \<and>
      (\<forall>v. vib cfg UDS_BLOCK_SIZE = Inr v \<longrightarrow>
         (\<exists>s. compute_sizes vib ocs cfg = Inr s \<and>
              volume_index_blocks s = v \<and>
              save_blocks s =
                1 + volume_index_blocks s + sls_page_map_blocks s + sls_open_chapter_blocks s \<and>
              sub_index_blocks s = volume_blocks s + 2 * save_blocks s \<and>
              sls_total_blocks s = 3 + sub_index_blocks s)))"
  by (auto simp: compute_sizes_def Let_def)

text \<open>
  Claim C6 as amended, at a misaligned configuration, at the scenario configuration with
  a failing volume-index collaborator, and at the scenario configuration with one that
  reports 7 blocks.
\<close>

theorem compute_sizes_spec_witness:
  "bytes_per_page (cfg_geometry misaligned_config) mod UDS_BLOCK_SIZE \<noteq> 0 \<and>
   compute_sizes seven_save_blocks open_chapter_5000 misaligned_config =
     Inl UDS_INCORRECT_ALIGNMENT \<and>
   bytes_per_page (cfg_geometry scenario_config) mod UDS_BLOCK_SIZE = 0 \<and>
   failing_save_blocks scenario_config UDS_BLOCK_SIZE = Inl UDS_INVALID_ARGUMENT \<and>
   compute_sizes failing_save_blocks open_chapter_5000 scenario_config =
     Inl UDS_INVALID_ARGUMENT \<and>
   seven_save_blocks scenario_config UDS_BLOCK_SIZE = Inr 7 \<and>
   (\<exists>s. compute_sizes seven_save_blocks open_chapter_5000 scenario_config = Inr s \<and>
        volume_index_blocks s = 7 \<and>
        save_blocks s =
          1 + volume_index_blocks s + sls_page_map_blocks s + sls_open_chapter_blocks s \<and>
        sub_index_blocks s = volume_blocks s + 2 * save_blocks s \<and>
        sls_total_blocks s = 3 + sub_index_blocks s)"
proof -
  have m: "bytes_per_page (cfg_geometry misaligned_config) mod UDS_BLOCK_SIZE \<noteq> 0"
    by (simp add: misaligned_config_def scenario_geometry_def UDS_BLOCK_SIZE_def)
  have a: "bytes_per_page (cfg_geometry scenario_config) mod UDS_BLOCK_SIZE = 0"
    by (simp add: scenario_config_def scenario_geometry_def UDS_BLOCK_SIZE_def)
  have f: "failing_save_blocks scenario_config UDS_BLOCK_SIZE = Inl UDS_INVALID_ARGUMENT"
    by (simp add: failing_save_blocks_def)
  have s: "seven_save_blocks scenario_config UDS_BLOCK_SIZE = Inr 7"
    by (simp add: seven_save_blocks_def)
  from compute_sizes_spec [of misaligned_config seven_save_blocks open_chapter_5000]
    compute_sizes_spec [of scenario_config failing_save_blocks open_chapter_5000]
    compute_sizes_spec [of scenario_config seven_save_blocks open_chapter_5000]
    m a f s
  show ?thesis by blast
qed

text \<open>
  Claim C6 as stated fails: the page size of the scenario configuration is a multiple of
  the block size, yet \<^verbatim>\<open>compute_sizes\<close> returns no sizes but the error of the
  volume-index collaborator.
\<close>

theorem compute_sizes_counterexample:
  "bytes_per_page (cfg_geometry scenario_config) mod UDS_BLOCK_SIZE = 0 \<and>
   compute_sizes failing_save_blocks open_chapter_5000 scenario_config =
     Inl UDS_INVALID_ARGUMENT"
  by (simp add: compute_sizes_def failing_save_blocks_def scenario_config_def
      scenario_geometry_def UDS_BLOCK_SIZE_def Let_def)

text \<open>
  The sizes of the scenario configuration.
\<close>

lemma compute_sizes_example:
  "compute_sizes seven_save_blocks open_chapter_5000 scenario_config =
     Inr \<lparr>num_saves = 2, sls_block_size = 4096, volume_blocks = 12,
          volume_index_blocks = 7, sls_page_map_blocks = 1, sls_open_chapter_blocks = 2,
          save_blocks = 11, sub_index_blocks = 34, sls_total_blocks = 37,
          total_size = 151552\<rparr>"
  by (simp add: compute_sizes_def seven_save_blocks_def open_chapter_5000_def
      scenario_config_def scenario_geometry_def UDS_BLOCK_SIZE_def Let_def block_count_def
      compute_index_page_map_save_size_def index_page_map_size_def num_entries_def)

subsection \<open>Selecting save slots\<close>

lemma oldest_scan_inv:
  "\<exists>k t. oldest_scan h n xs i (Some k0) ot = (Some k, t) \<and> t \<le> ot \<and>
      (\<forall>j < length xs. t \<le> effective_time h n (xs ! j)) \<and>
      ((k = k0 \<and> t = ot) \<or>
       (i \<le> k \<and> k < i + length xs \<and> t = effective_time h n (xs ! (k - i)) \<and> t < ot \<and>
        (\<forall>j < k - i. t < effective_time h n (xs ! j))))"
proof (induction xs arbitrary: i k0 ot)
  case Nil
  then show ?case by simp
next
  case (Cons x rest)
  let ?e = "effective_time h n x"
  show ?case
  proof (cases "?e < ot")
    case True
    then have step: "oldest_scan h n (x # rest) i (Some k0) ot =
        oldest_scan h n rest (Suc i) (Some i) ?e"
      by (simp add: effective_time_def Let_def)
    from Cons.IH [of "Suc i" i ?e] obtain k t where
      r: "oldest_scan h n rest (Suc i) (Some i) ?e = (Some k, t)" and le: "t \<le> ?e"
      and mn: "\<forall>j < length rest. t \<le> effective_time h n (rest ! j)"
      and d: "(k = i \<and> t = ?e) \<or>
         (Suc i \<le> k \<and> k < Suc i + length rest \<and>
          t = effective_time h n (rest ! (k - Suc i)) \<and> t < ?e \<and>
          (\<forall>j < k - Suc i. t < effective_time h n (rest ! j)))"
      by blast
    have mn': "\<forall>j < length (x # rest). t \<le> effective_time h n ((x # rest) ! j)"
      using le mn by (auto simp: nth_Cons')
    from le True have lt: "t < ot" by simp
    from d have "i \<le> k \<and> k < i + length (x # rest) \<and>
        t = effective_time h n ((x # rest) ! (k - i)) \<and>
        (\<forall>j < k - i. t < effective_time h n ((x # rest) ! j))"
    proof
      assume "k = i \<and> t = ?e"
      then show ?thesis by simp
    next
      assume a: "Suc i \<le> k \<and> k < Suc i + length rest \<and>
          t = effective_time h n (rest ! (k - Suc i)) \<and> t < ?e \<and>
          (\<forall>j < k - Suc i. t < effective_time h n (rest ! j))"
      then have "Suc i \<le> k" by simp
      then have "k - i = Suc (k - Suc i)" by simp
      with a show ?thesis by (auto simp: nth_Cons')
    qed
    with r lt mn' show ?thesis unfolding step by auto
  next
    case False
    then have step: "oldest_scan h n (x # rest) i (Some k0) ot =
        oldest_scan h n rest (Suc i) (Some k0) ot"
      by (simp add: effective_time_def Let_def)
    from Cons.IH [of "Suc i" k0 ot] obtain k t where
      r: "oldest_scan h n rest (Suc i) (Some k0) ot = (Some k, t)" and le: "t \<le> ot"
      and mn: "\<forall>j < length rest. t \<le> effective_time h n (rest ! j)"
      and d: "(k = k0 \<and> t = ot) \<or>
         (Suc i \<le> k \<and> k < Suc i + length rest \<and>
          t = effective_time h n (rest ! (k - Suc i)) \<and> t < ot \<and>
          (\<forall>j < k - Suc i. t < effective_time h n (rest ! j)))"
      by blast
    from False have ge: "ot \<le> ?e" by simp
    have mn': "\<forall>j < length (x # rest). t \<le> effective_time h n ((x # rest) ! j)"
      using le ge mn by (auto simp: nth_Cons')
    from d have "(k = k0 \<and> t = ot) \<or>
       (i \<le> k \<and> k < i + length (x # rest) \<and>
        t = effective_time h n ((x # rest) ! (k - i)) \<and> t < ot \<and>
        (\<forall>j < k - i. t < effective_time h n ((x # rest) ! j)))"
    proof
      assume "k = k0 \<and> t = ot"
      then show ?thesis by simp
    next
      assume a: "Suc i \<le> k \<and> k < Suc i + length rest \<and>
          t = effective_time h n (rest ! (k - Suc i)) \<and> t < ot \<and>
          (\<forall>j < k - Suc i. t < effective_time h n (rest ! j))"
      then have "Suc i \<le> k" by simp
      then have "k - i = Suc (k - Suc i)" by simp
      with a ge show ?thesis by (auto simp: nth_Cons')
    qed
    with r le mn' show ?thesis unfolding step by auto
  qed
qed

lemma oldest_scan_first:
  assumes "xs \<noteq> []"
  shows "\<exists>k t. oldest_scan h n xs 0 None 0 = (Some k, t) \<and> k < length xs \<and>
      (\<forall>j < length xs. effective_time h n (xs ! k) \<le> effective_time h n (xs ! j)) \<and>
      (\<forall>j < k. effective_time h n (xs ! k) < effective_time h n (xs ! j))"
proof -
  from assms obtain x rest where xs: "xs = x # rest" by (cases xs) auto
  let ?e = "effective_time h n x"
  have step: "oldest_scan h n xs 0 None 0 = oldest_scan h n rest (Suc 0) (Some 0) ?e"
    by (simp add: xs effective_time_def Let_def)
  from oldest_scan_inv [of h n rest "Suc 0" 0 ?e] obtain k t where
    r: "oldest_scan h n rest (Suc 0) (Some 0) ?e = (Some k, t)" and le: "t \<le> ?e"
    and mn: "\<forall>j < length rest. t \<le> effective_time h n (rest ! j)"
    and d: "(k = 0 \<and> t = ?e) \<or>
       (Suc 0 \<le> k \<and> k < Suc 0 + length rest \<and>
        t = effective_time h n (rest ! (k - Suc 0)) \<and> t < ?e \<and>
        (\<forall>j < k - Suc 0. t < effective_time h n (rest ! j)))"
    by blast
  have mn': "\<forall>j < length xs. t \<le> effective_time h n (xs ! j)"
    using le mn by (auto simp: xs nth_Cons')
  from d have "k < length xs \<and> t = effective_time h n (xs ! k) \<and>
      (\<forall>j < k. t < effective_time h n (xs ! j))"
  proof
    assume "k = 0 \<and> t = ?e"
    then show ?thesis by (simp add: xs)
  next
    assume a: "Suc 0 \<le> k \<and> k < Suc 0 + length rest \<and>
        t = effective_time h n (rest ! (k - Suc 0)) \<and> t < ?e \<and>
        (\<forall>j < k - Suc 0. t < effective_time h n (rest ! j))"
    then obtain k' where k: "k = Suc k'" by (cases k) auto
    with a show ?thesis by (auto simp: xs nth_Cons')
  qed
  with r mn' show ?thesis unfolding step by auto
qed


text \<open>
  Claim C3. Over an array of \<^verbatim>\<open>max_saves\<close> slots (at least one),
  \<^verbatim>\<open>select_oldest_index_save_layout\<close> succeeds and returns a slot whose effective time
  (its timestamp if it validates, 0 otherwise) is the least of all slots, and every slot
  before it in the array has a strictly greater effective time: a slot that fails to
  validate beats every slot with a real timestamp, and among equals the first wins.
\<close>

theorem select_oldest_spec:
  assumes len: "length (saves sil) = unat n_saves" and ne: "n_saves \<noteq> 0"
  shows "\<exists>k. select_oldest_index_save_layout h sil n_saves = Some (Inr k) \<and>
      k < length (saves sil) \<and>
      (\<forall>j < length (saves sil).
         effective_time h (sil_nonce sil) (saves sil ! k)
           \<le> effective_time h (sil_nonce sil) (saves sil ! j)) \<and>
      (\<forall>j < k.
         effective_time h (sil_nonce sil) (saves sil ! k)
           < effective_time h (sil_nonce sil) (saves sil ! j))"
proof -
  from ne have "unat n_saves \<noteq> 0" by (simp add: unat_eq_0)
  with len have nonempty: "saves sil \<noteq> []" by auto
  from len have tk: "take (unat n_saves) (saves sil) = saves sil" by simp
  from oldest_scan_first [OF nonempty, of h "sil_nonce sil"] obtain k t where
    "oldest_scan h (sil_nonce sil) (saves sil) 0 None 0 = (Some k, t)"
    and "k < length (saves sil)"
    and "\<forall>j < length (saves sil).
         effective_time h (sil_nonce sil) (saves sil ! k)
           \<le> effective_time h (sil_nonce sil) (saves sil ! j)"
    and "\<forall>j < k.
         effective_time h (sil_nonce sil) (saves sil ! k)
           < effective_time h (sil_nonce sil) (saves sil ! j)"
    by blast
  then show ?thesis
    using len by (simp add: select_oldest_index_save_layout_def tk)
qed

text \<open>
  Claim C3 at the three example slots with times 9, 7 (wrong nonce, so effective time
  0) and 5: the slot at position 1 is chosen.
\<close>

theorem select_oldest_spec_witness:
  "length (saves example_sil) = unat (3 :: 32 word) \<and> (3 :: 32 word) \<noteq> 0 \<and>
   select_oldest_index_save_layout zero_digest example_sil 3 = Some (Inr 1) \<and>
   effective_time zero_digest (sil_nonce example_sil) (saves example_sil ! 0) = 9 \<and>
   effective_time zero_digest (sil_nonce example_sil) (saves example_sil ! 1) = 0 \<and>
   effective_time zero_digest (sil_nonce example_sil) (saves example_sil ! 2) = 5 \<and>
   (\<exists>k. select_oldest_index_save_layout zero_digest example_sil 3 = Some (Inr k) \<and>
      k < length (saves example_sil) \<and>
      (\<forall>j < length (saves example_sil).
         effective_time zero_digest (sil_nonce example_sil) (saves example_sil ! k)
           \<le> effective_time zero_digest (sil_nonce example_sil) (saves example_sil ! j)) \<and>
      (\<forall>j < k.
         effective_time zero_digest (sil_nonce example_sil) (saves example_sil ! k)
           < effective_time zero_digest (sil_nonce example_sil) (saves example_sil ! j)))"
proof -
  have len: "length (saves example_sil) = unat (3 :: 32 word)"
    by (simp add: example_sil_def)
  have ne: "(3 :: 32 word) \<noteq> 0" by simp
  have e: "effective_time zero_digest (sil_nonce example_sil) (saves example_sil ! 0) = 9"
    "effective_time zero_digest (sil_nonce example_sil) (saves example_sil ! 1) = 0"
    "effective_time zero_digest (sil_nonce example_sil) (saves example_sil ! 2) = 5"
    by (simp_all add: effective_time_def example_sil_def validate_example_slot)
  from select_oldest_spec [OF len ne, of zero_digest] len ne select_oldest_example e
  show ?thesis by blast
qed

text \<open>
  With no slot at all the function fails its assertion.
\<close>

lemma select_oldest_no_slots:
  "select_oldest_index_save_layout h sil 0 = Some (Inl UDS_ASSERTION_FAILED)"
  by (simp add: select_oldest_index_save_layout_def)

lemma validate_Inr:
  assumes "validate_index_save_layout h x n = Inr s"
  shows "s = timestamp (save_data x)" "0 < s" "valid_save h n x"
  using assms
  by (auto simp: validate_index_save_layout_def valid_save_def word_greater_zero_iff
      split: if_splits)

lemma valid_save_Inr:
  "valid_save h n x \<Longrightarrow> validate_index_save_layout h x n = Inr (timestamp (save_data x))"
  by (simp add: valid_save_def)

lemma not_valid_save_Inl:
  "validate_index_save_layout h x n = Inl e \<Longrightarrow> \<not> valid_save h n x"
  by (simp add: valid_save_def)

lemma latest_scan_inv:
  "\<exists>k t. latest_scan h n xs i (Some k0) lt = (Some k, t) \<and> lt \<le> t \<and>
      (\<forall>j < length xs. valid_save h n (xs ! j) \<longrightarrow> timestamp (save_data (xs ! j)) \<le> t) \<and>
      ((k = k0 \<and> t = lt) \<or>
       (i \<le> k \<and> k < i + length xs \<and> valid_save h n (xs ! (k - i)) \<and>
        t = timestamp (save_data (xs ! (k - i))) \<and> lt < t))"
proof (induction xs arbitrary: i k0 lt)
  case Nil
  then show ?case by simp
next
  case (Cons x rest)
  show ?case
  proof (cases "validate_index_save_layout h x n")
    case (Inl e)
    then have step: "latest_scan h n (x # rest) i (Some k0) lt =
        latest_scan h n rest (Suc i) (Some k0) lt"
      by simp
    from Inl have nv: "\<not> valid_save h n x" by (rule not_valid_save_Inl)
    from Cons.IH [of "Suc i" k0 lt] obtain k t where
      r: "latest_scan h n rest (Suc i) (Some k0) lt = (Some k, t)" and le: "lt \<le> t"
      and mx: "\<forall>j < length rest. valid_save h n (rest ! j) \<longrightarrow>
                  timestamp (save_data (rest ! j)) \<le> t"
      and d: "(k = k0 \<and> t = lt) \<or>
         (Suc i \<le> k \<and> k < Suc i + length rest \<and> valid_save h n (rest ! (k - Suc i)) \<and>
          t = timestamp (save_data (rest ! (k - Suc i))) \<and> lt < t)"
      by blast
    have mx': "\<forall>j < length (x # rest). valid_save h n ((x # rest) ! j) \<longrightarrow>
                  timestamp (save_data ((x # rest) ! j)) \<le> t"
      using nv mx by (auto simp: nth_Cons')
    from d have "(k = k0 \<and> t = lt) \<or>
       (i \<le> k \<and> k < i + length (x # rest) \<and> valid_save h n ((x # rest) ! (k - i)) \<and>
        t = timestamp (save_data ((x # rest) ! (k - i))) \<and> lt < t)"
    proof
      assume "k = k0 \<and> t = lt"
      then show ?thesis by simp
    next
      assume a: "Suc i \<le> k \<and> k < Suc i + length rest \<and>
          valid_save h n (rest ! (k - Suc i)) \<and>
          t = timestamp (save_data (rest ! (k - Suc i))) \<and> lt < t"
      then have "Suc i \<le> k" by simp
      then have "k - i = Suc (k - Suc i)" by simp
      with a show ?thesis by (auto simp: nth_Cons')
    qed
    with r le mx' show ?thesis unfolding step by auto
  next
    case (Inr s)
    note v = validate_Inr [OF Inr]
    show ?thesis
    proof (cases "lt < s")
      case True
      with Inr have step: "latest_scan h n (x # rest) i (Some k0) lt =
          latest_scan h n rest (Suc i) (Some i) s"
        by simp
      from Cons.IH [of "Suc i" i s] obtain k t where
        r: "latest_scan h n rest (Suc i) (Some i) s = (Some k, t)" and le: "s \<le> t"
        and mx: "\<forall>j < length rest. valid_save h n (rest ! j) \<longrightarrow>
                    timestamp (save_data (rest ! j)) \<le> t"
        and d: "(k = i \<and> t = s) \<or>
           (Suc i \<le> k \<and> k < Suc i + length rest \<and> valid_save h n (rest ! (k - Suc i)) \<and>
            t = timestamp (save_data (rest ! (k - Suc i))) \<and> s < t)"
        by blast
      have mx': "\<forall>j < length (x # rest). valid_save h n ((x # rest) ! j) \<longrightarrow>
                    timestamp (save_data ((x # rest) ! j)) \<le> t"
        using v(1) le mx by (auto simp: nth_Cons')
      from True le have lt': "lt < t" by simp
      from d have "i \<le> k \<and> k < i + length (x # rest) \<and>
          valid_save h n ((x # rest) ! (k - i)) \<and>
          t = timestamp (save_data ((x # rest) ! (k - i)))"
      proof
        assume "k = i \<and> t = s"
        then show ?thesis using v by simp
      next
        assume a: "Suc i \<le> k \<and> k < Suc i + length rest \<and>
            valid_save h n (rest ! (k - Suc i)) \<and>
            t = timestamp (save_data (rest ! (k - Suc i))) \<and> s < t"
        then have "Suc i \<le> k" by simp
        then have "k - i = Suc (k - Suc i)" by simp
        with a show ?thesis by (auto simp: nth_Cons')
      qed
      with r lt' mx' show ?thesis unfolding step by auto
    next
      case False
      with Inr have step: "latest_scan h n (x # rest) i (Some k0) lt =
          latest_scan h n rest (Suc i) (Some k0) lt"
        by simp
      from False have sle: "s \<le> lt" by simp
      from Cons.IH [of "Suc i" k0 lt] obtain k t where
        r: "latest_scan h n rest (Suc i) (Some k0) lt = (Some k, t)" and le: "lt \<le> t"
        and mx: "\<forall>j < length rest. valid_save h n (rest ! j) \<longrightarrow>
                    timestamp (save_data (rest ! j)) \<le> t"
        and d: "(k = k0 \<and> t = lt) \<or>
           (Suc i \<le> k \<and> k < Suc i + length rest \<and> valid_save h n (rest ! (k - Suc i)) \<and>
            t = timestamp (save_data (rest ! (k - Suc i))) \<and> lt < t)"
        by blast
      from sle le have "s \<le> t" by simp
      then have mx': "\<forall>j < length (x # rest). valid_save h n ((x # rest) ! j) \<longrightarrow>
                    timestamp (save_data ((x # rest) ! j)) \<le> t"
        using v(1) mx by (auto simp: nth_Cons')
      from d have "(k = k0 \<and> t = lt) \<or>
         (i \<le> k \<and> k < i + length (x # rest) \<and> valid_save h n ((x # rest) ! (k - i)) \<and>
          t = timestamp (save_data ((x # rest) ! (k - i))) \<and> lt < t)"
      proof
        assume "k = k0 \<and> t = lt"
        then show ?thesis by simp
      next
        assume a: "Suc i \<le> k \<and> k < Suc i + length rest \<and>
            valid_save h n (rest ! (k - Suc i)) \<and>
            t = timestamp (save_data (rest ! (k - Suc i))) \<and> lt < t"
        then have "Suc i \<le> k" by simp
        then have "k - i = Suc (k - Suc i)" by simp
        with a show ?thesis by (auto simp: nth_Cons')
      qed
      with r le mx' show ?thesis unfolding step by auto
    qed
  qed
qed

lemma latest_scan_none:
  "(if \<forall>j < length xs. \<not> valid_save h n (xs ! j)
      then fst (latest_scan h n xs i None 0) = None
    else \<exists>k t. latest_scan h n xs i None 0 = (Some k, t) \<and>
           i \<le> k \<and> k < i + length xs \<and> valid_save h n (xs ! (k - i)) \<and>
           (\<forall>j < length xs. valid_save h n (xs ! j) \<longrightarrow>
              timestamp (save_data (xs ! j)) \<le> timestamp (save_data (xs ! (k - i)))))"
proof (induction xs arbitrary: i)
  case Nil
  then show ?case by simp
next
  case (Cons x rest)
  show ?case
  proof (cases "validate_index_save_layout h x n")
    case (Inl e)
    then have step: "latest_scan h n (x # rest) i None 0 = latest_scan h n rest (Suc i) None 0"
      by simp
    from Inl have nv: "\<not> valid_save h n x" by (rule not_valid_save_Inl)
    have all: "(\<forall>j < length (x # rest). \<not> valid_save h n ((x # rest) ! j)) =
               (\<forall>j < length rest. \<not> valid_save h n (rest ! j))"
      using nv by (auto simp: nth_Cons' All_less_Suc2 simp del: length_Cons) 
    show ?thesis
    proof (cases "\<forall>j < length rest. \<not> valid_save h n (rest ! j)")
      case True
      with Cons.IH [of "Suc i"] all show ?thesis unfolding step by simp
    next
      case False
      with Cons.IH [of "Suc i"] obtain k t where
        r: "latest_scan h n rest (Suc i) None 0 = (Some k, t)"
        and b: "Suc i \<le> k" "k < Suc i + length rest"
        and vk: "valid_save h n (rest ! (k - Suc i))"
        and mx: "\<forall>j < length rest. valid_save h n (rest ! j) \<longrightarrow>
              timestamp (save_data (rest ! j)) \<le> timestamp (save_data (rest ! (k - Suc i)))"
        by auto
      from b have ki: "k - i = Suc (k - Suc i)" by simp
      have "\<forall>j < length (x # rest). valid_save h n ((x # rest) ! j) \<longrightarrow>
              timestamp (save_data ((x # rest) ! j))
                \<le> timestamp (save_data ((x # rest) ! (k - i)))"
        using nv mx ki by (auto simp: nth_Cons')
      with r b vk ki False all show ?thesis unfolding step by auto
    qed
  next
    case (Inr s)
    note v = validate_Inr [OF Inr]
    from Inr v(2) have step: "latest_scan h n (x # rest) i None 0 =
        latest_scan h n rest (Suc i) (Some i) s"
      by simp
    have ex: "\<not> (\<forall>j < length (x # rest). \<not> valid_save h n ((x # rest) ! j))"
      using v(3) by auto
    from latest_scan_inv [of h n rest "Suc i" i s] obtain k t where
      r: "latest_scan h n rest (Suc i) (Some i) s = (Some k, t)" and le: "s \<le> t"
      and mx: "\<forall>j < length rest. valid_save h n (rest ! j) \<longrightarrow>
                  timestamp (save_data (rest ! j)) \<le> t"
      and d: "(k = i \<and> t = s) \<or>
         (Suc i \<le> k \<and> k < Suc i + length rest \<and> valid_save h n (rest ! (k - Suc i)) \<and>
          t = timestamp (save_data (rest ! (k - Suc i))) \<and> s < t)"
      by blast
    have mx': "\<forall>j < length (x # rest). valid_save h n ((x # rest) ! j) \<longrightarrow>
                  timestamp (save_data ((x # rest) ! j)) \<le> t"
      using v(1) le mx by (auto simp: nth_Cons')
    from d have "i \<le> k \<and> k < i + length (x # rest) \<and>
        valid_save h n ((x # rest) ! (k - i)) \<and>
        t = timestamp (save_data ((x # rest) ! (k - i)))"
    proof
      assume "k = i \<and> t = s"
      then show ?thesis using v by simp
    next
      assume a: "Suc i \<le> k \<and> k < Suc i + length rest \<and>
          valid_save h n (rest ! (k - Suc i)) \<and>
          t = timestamp (save_data (rest ! (k - Suc i))) \<and> s < t"
      then have "Suc i \<le> k" by simp
      then have "k - i = Suc (k - Suc i)" by simp
      with a show ?thesis by (auto simp: nth_Cons')
    qed
    with r mx' ex show ?thesis unfolding step by auto
  qed
qed

text \<open>
  Claim C4. Over an array of \<^verbatim>\<open>max_saves\<close> slots,
  \<^verbatim>\<open>select_latest_index_save_layout\<close> returns \<open>UDS_INDEX_NOT_SAVED_CLEANLY\<close> if no slot
  validates, and otherwise succeeds with a slot that validates and whose timestamp is
  the greatest among the slots that validate. The two results differ, so the error is
  returned if and only if no slot validates.
\<close>

theorem select_latest_spec:
  assumes len: "length (saves sil) = unat n_saves"
  shows "if \<forall>j < length (saves sil). \<not> valid_save h (sil_nonce sil) (saves sil ! j)
      then select_latest_index_save_layout h sil n_saves =
             Some (Inl UDS_INDEX_NOT_SAVED_CLEANLY)
    else \<exists>k. select_latest_index_save_layout h sil n_saves = Some (Inr k) \<and>
           k < length (saves sil) \<and> valid_save h (sil_nonce sil) (saves sil ! k) \<and>
           (\<forall>j < length (saves sil). valid_save h (sil_nonce sil) (saves sil ! j) \<longrightarrow>
              timestamp (save_data (saves sil ! j))
                \<le> timestamp (save_data (saves sil ! k)))"
proof -
  from len have tk: "take (unat n_saves) (saves sil) = saves sil" by simp
  show ?thesis
  proof (cases "\<forall>j < length (saves sil). \<not> valid_save h (sil_nonce sil) (saves sil ! j)")
    case True
    with latest_scan_none [of "saves sil" h "sil_nonce sil" 0]
    have "fst (latest_scan h (sil_nonce sil) (saves sil) 0 None 0) = None" by simp
    with True len show ?thesis
      by (simp add: select_latest_index_save_layout_def tk)
  next
    case False
    with latest_scan_none [of "saves sil" h "sil_nonce sil" 0] obtain k t where
      "latest_scan h (sil_nonce sil) (saves sil) 0 None 0 = (Some k, t)"
      "k < length (saves sil)" "valid_save h (sil_nonce sil) (saves sil ! k)"
      "\<forall>j < length (saves sil). valid_save h (sil_nonce sil) (saves sil ! j) \<longrightarrow>
              timestamp (save_data (saves sil ! j))
                \<le> timestamp (save_data (saves sil ! k))"
      by auto
    with False len show ?thesis
      by (simp add: select_latest_index_save_layout_def tk)
  qed
qed

text \<open>
  Claim C4 at the three example slots, where the slot at position 0 (time 9) is chosen,
  and at two slots of which none validates.
\<close>

theorem select_latest_spec_witness:
  "length (saves example_sil) = unat (3 :: 32 word) \<and>
   valid_save zero_digest (sil_nonce example_sil) (saves example_sil ! 0) \<and>
   select_latest_index_save_layout zero_digest example_sil 3 = Some (Inr 0) \<and>
   (\<exists>k. select_latest_index_save_layout zero_digest example_sil 3 = Some (Inr k) \<and>
           k < length (saves example_sil) \<and>
           valid_save zero_digest (sil_nonce example_sil) (saves example_sil ! k) \<and>
           (\<forall>j < length (saves example_sil).
              valid_save zero_digest (sil_nonce example_sil) (saves example_sil ! j) \<longrightarrow>
              timestamp (save_data (saves example_sil ! j))
                \<le> timestamp (save_data (saves example_sil ! k)))) \<and>
   length (saves unsaved_sil) = unat (2 :: 32 word) \<and>
   \<not> valid_save zero_digest (sil_nonce unsaved_sil) (saves unsaved_sil ! 0) \<and>
   \<not> valid_save zero_digest (sil_nonce unsaved_sil) (saves unsaved_sil ! 1) \<and>
   select_latest_index_save_layout zero_digest unsaved_sil 2 =
     Some (Inl UDS_INDEX_NOT_SAVED_CLEANLY)"
proof -
  have len: "length (saves example_sil) = unat (3 :: 32 word)"
    by (simp add: example_sil_def)
  have v0: "valid_save zero_digest (sil_nonce example_sil) (saves example_sil ! 0)"
    by (simp add: valid_save_def example_sil_def validate_example_slot)
      (simp add: example_slot_def)
  have pos: "0 < length (saves example_sil)" by (simp add: example_sil_def)
  with v0 have ex: "\<not> (\<forall>j < length (saves example_sil).
       \<not> valid_save zero_digest (sil_nonce example_sil) (saves example_sil ! j))"
    by blast
  have len2: "length (saves unsaved_sil) = unat (2 :: 32 word)"
    by (simp add: unsaved_sil_def)
  have nv: "\<not> valid_save zero_digest (sil_nonce unsaved_sil) (saves unsaved_sil ! 0)"
    "\<not> valid_save zero_digest (sil_nonce unsaved_sil) (saves unsaved_sil ! 1)"
    by (simp_all add: valid_save_def unsaved_sil_def validate_example_slot)
  then have none: "\<forall>j < length (saves unsaved_sil).
       \<not> valid_save zero_digest (sil_nonce unsaved_sil) (saves unsaved_sil ! j)"
    by (simp add: unsaved_sil_def less_Suc_eq)
  from select_latest_spec [OF len, of zero_digest] ex
  have a: "\<exists>k. select_latest_index_save_layout zero_digest example_sil 3 = Some (Inr k) \<and>
           k < length (saves example_sil) \<and>
           valid_save zero_digest (sil_nonce example_sil) (saves example_sil ! k) \<and>
           (\<forall>j < length (saves example_sil).
              valid_save zero_digest (sil_nonce example_sil) (saves example_sil ! j) \<longrightarrow>
              timestamp (save_data (saves example_sil ! j))
                \<le> timestamp (save_data (saves example_sil ! k)))"
    by simp
  from select_latest_spec [OF len2, of zero_digest] none
  have b: "select_latest_index_save_layout zero_digest unsaved_sil 2 =
     Some (Inl UDS_INDEX_NOT_SAVED_CLEANLY)"
    by simp
  from a b len len2 v0 nv select_latest_example show ?thesis by blast
qed

subsection \<open>Reconstructing a save slot\<close>

text \<open>
  With no zone and save type \<open>NO_SAVE\<close>, \<^verbatim>\<open>populate_index_save_layout\<close> carves the
  region of the slot into one header block, the page map and, from there to the end of
  the region, scratch space; it writes no other field.
\<close>

lemma populate_fresh:
  "populate_index_save_layout slot sb 0 NO_SAVE =
     Some (slot\<lparr>isl_header :=
                   \<lparr>start_block = start_block (index_save slot), num_blocks = 1,
                    checksum = 0, kind = ucast RL_KIND_HEADER,
                    instance_no = ucast RL_SOLE_INSTANCE\<rparr>,
                 index_page_map_lr :=
                   \<lparr>start_block = start_block (index_save slot) + 1,
                    num_blocks = page_map_blocks sb, checksum = 0,
                    kind = ucast RL_KIND_INDEX_PAGE_MAP,
                    instance_no = ucast RL_SOLE_INSTANCE\<rparr>,
                 free_space :=
                   \<lparr>start_block = start_block (index_save slot) + 1 + page_map_blocks sb,
                    num_blocks = num_blocks (index_save slot) - (1 + page_map_blocks sb),
                    checksum = 0, kind = ucast RL_KIND_SCRATCH,
                    instance_no = ucast RL_SOLE_INSTANCE\<rparr>\<rparr>)"
  by (cases slot) (simp add: populate_index_save_layout_def setup_layout_def Let_def)

lemma degenerate_condition:
  assumes wf: "length (regions table) = unat (num_regions (rt_header table))"
    and deg: "regions table = [] \<or>
       (\<exists>r. regions table = [r] \<and> ucast (kind r) = RL_KIND_SCRATCH)"
  shows "num_regions (rt_header table) = 0 \<or>
      (num_regions (rt_header table) = 1 \<and>
       ucast (kind (regions table ! 0)) = RL_KIND_SCRATCH)"
  using deg
proof
  assume "regions table = []"
  with wf have "unat (num_regions (rt_header table)) = 0" by simp
  then show ?thesis by (simp add: unat_eq_0)
next
  assume "\<exists>r. regions table = [r] \<and> ucast (kind r) = RL_KIND_SCRATCH"
  then obtain r where r: "regions table = [r]" "ucast (kind r) = RL_KIND_SCRATCH" by blast
  with wf have "unat (num_regions (rt_header table)) = unat (1 :: 16 word)" by simp
  then have "num_regions (rt_header table) = 1" by (simp only: word_unat_eq_iff)
  with r show ?thesis by simp
qed

text \<open>
  Claim C7, as amended. For a region table with no region, or with exactly one region
  whose kind is SCRATCH, \<^verbatim>\<open>reconstruct_index_save\<close> succeeds and leaves the slot with
  zero zones and carved afresh: its header is the first block of its region, its page
  map the \<^verbatim>\<open>page_map_blocks\<close> blocks after that, and its free space the rest of the
  region, all three of the sole instance; the save data are those read, and the flags
  \<^verbatim>\<open>read\<close> and \<^verbatim>\<open>written\<close> are cleared. The save type it leaves is the one it derives
  from the header type of the table before it looks at the regions: \<open>IS_SAVE\<close> under a
  SAVE header, \<open>NO_SAVE\<close> under any other. The region of the slot, its zone array, its
  open chapter and its state buffer are as they were.
\<close>

theorem reconstruct_degenerate:
  assumes wf: "length (regions table) = unat (num_regions (rt_header table))"
    and deg: "regions table = [] \<or>
       (\<exists>r. regions table = [r] \<and> ucast (kind r) = RL_KIND_SCRATCH)"
  shows "\<exists>slot'. reconstruct_index_save alloc slot data sb table = Some (UDS_SUCCESS, slot') \<and>
      num_zones slot' = 0 \<and>
      save_type slot' = (if rh_type (rt_header table) = RH_TYPE_SAVE then IS_SAVE else NO_SAVE) \<and>
      slot' = slot
        \<lparr>num_zones := 0, save_data := data, read := False, written := False,
         save_type := (if rh_type (rt_header table) = RH_TYPE_SAVE then IS_SAVE else NO_SAVE),
         isl_header :=
           \<lparr>start_block = start_block (index_save slot), num_blocks = 1,
            checksum = 0, kind = ucast RL_KIND_HEADER,
            instance_no = ucast RL_SOLE_INSTANCE\<rparr>,
         index_page_map_lr :=
           \<lparr>start_block = start_block (index_save slot) + 1,
            num_blocks = page_map_blocks sb, checksum = 0,
            kind = ucast RL_KIND_INDEX_PAGE_MAP,
            instance_no = ucast RL_SOLE_INSTANCE\<rparr>,
         free_space :=
           \<lparr>start_block = start_block (index_save slot) + 1 + page_map_blocks sb,
            num_blocks = num_blocks (index_save slot) - (1 + page_map_blocks sb),
            checksum = 0, kind = ucast RL_KIND_SCRATCH,
            instance_no = ucast RL_SOLE_INSTANCE\<rparr>\<rparr>"
proof -
  let ?slot1 = "slot\<lparr>num_zones := 0, save_data := data, read := False,
                         written := False,
                         save_type := (if rh_type (rt_header table) = RH_TYPE_SAVE
                                         then IS_SAVE else NO_SAVE)\<rparr>"
  have "reconstruct_index_save alloc slot data sb table =
      (case populate_index_save_layout ?slot1 sb 0 NO_SAVE of
         None \<Rightarrow> None | Some slot2 \<Rightarrow> Some (UDS_SUCCESS, slot2))"
    unfolding reconstruct_index_save_def Let_def
    using wf degenerate_condition [OF wf deg] by simp
  then show ?thesis
    unfolding populate_fresh by simp
qed

text \<open>
  Claim C7 as stated fails for a table with no region under a SAVE header: the
  reconstruction succeeds with zero zones, but the save type it leaves is \<open>IS_SAVE\<close>.
\<close>

theorem reconstruct_degenerate_counterexample:
  "length (regions empty_save_table) = unat (num_regions (rt_header empty_save_table)) \<and>
   regions empty_save_table = [] \<and>
   reconstruct_index_save always_allocates unread_slot zeroed_save_data example_super
     empty_save_table = Some (UDS_SUCCESS, carved_slot IS_SAVE) \<and>
   save_type (carved_slot IS_SAVE) = IS_SAVE \<and> IS_SAVE \<noteq> NO_SAVE"
  by (simp add: reconstruct_index_save_def populate_index_save_layout_def setup_layout_def
      empty_save_table_def unread_slot_def zeroed_save_data_def example_super_def
      carved_slot_def save_region_def RH_TYPE_SAVE_def
      RL_KIND_SCRATCH_def RL_KIND_HEADER_def RL_KIND_INDEX_PAGE_MAP_def RL_SOLE_INSTANCE_def
      Let_def)

text \<open>
  Claim C7 as amended, at a table that holds a single SCRATCH region under an UNSAVED
  header: the slot is left as \<open>carved_slot NO_SAVE\<close>.
\<close>

theorem reconstruct_degenerate_witness:
  "length (regions scratch_only_table) = unat (num_regions (rt_header scratch_only_table)) \<and>
   (\<exists>r. regions scratch_only_table = [r] \<and> ucast (kind r) = RL_KIND_SCRATCH) \<and>
   rh_type (rt_header scratch_only_table) = RH_TYPE_UNSAVED \<and>
   reconstruct_index_save always_allocates unread_slot zeroed_save_data example_super
     scratch_only_table = Some (UDS_SUCCESS, carved_slot NO_SAVE) \<and>
   num_zones (carved_slot NO_SAVE) = 0 \<and>
   save_type (carved_slot NO_SAVE) = NO_SAVE"
proof -
  have wf: "length (regions scratch_only_table) =
      unat (num_regions (rt_header scratch_only_table))"
    by (simp add: scratch_only_table_def)
  have one: "\<exists>r. regions scratch_only_table = [r] \<and> ucast (kind r) = RL_KIND_SCRATCH"
    by (simp add: scratch_only_table_def RL_KIND_SCRATCH_def)
  then have deg: "regions scratch_only_table = [] \<or>
       (\<exists>r. regions scratch_only_table = [r] \<and> ucast (kind r) = RL_KIND_SCRATCH)"
    by simp
  have ty: "rh_type (rt_header scratch_only_table) = RH_TYPE_UNSAVED"
    by (simp add: scratch_only_table_def)
  have nz: "num_zones (carved_slot NO_SAVE) = 0" "save_type (carved_slot NO_SAVE) = NO_SAVE"
    by (simp_all add: carved_slot_def unread_slot_def)
  from reconstruct_degenerate [OF wf deg, of always_allocates unread_slot
      zeroed_save_data example_super]
  have "reconstruct_index_save always_allocates unread_slot zeroed_save_data example_super
     scratch_only_table = Some (UDS_SUCCESS, carved_slot NO_SAVE)"
    by (simp add: ty unread_slot_def zeroed_save_data_def example_super_def
      carved_slot_def save_region_def RH_TYPE_SAVE_def RH_TYPE_UNSAVED_def
      RL_KIND_SCRATCH_def RL_KIND_HEADER_def RL_KIND_INDEX_PAGE_MAP_def RL_SOLE_INSTANCE_def)
  with wf one ty nz show ?thesis by blast
qed
subsection \<open>The conversion to version 7\<close>

lemma save_single_file_layout_defined:
  assumes "unat (max_saves (super layout)) \<le> length (saves (index layout))"
  shows "\<exists>r d'. save_single_file_layout io alloc layout off d = Some (r, d')"
proof -
  from assms have "\<not> length (saves (index layout)) < unat (max_saves (super layout))"
    by simp
  then have "make_single_file_region_table alloc layout \<noteq> None"
    by (simp add: make_single_file_region_table_def Let_def)
  then obtain x where "make_single_file_region_table alloc layout = Some x"
    by blast
  then show ?thesis
    by (cases x) (auto simp: save_single_file_layout_def split: prod.splits sum.splits)
qed

lemma converted_layout_fields:
  "super (converted_layout layout lvm ob) =
     (super layout)\<lparr>start_offset := lvm, volume_offset := ob, version := 7\<rparr>"
  "index (converted_layout layout lvm ob) =
     (index layout)\<lparr>sub_index := (sub_index (index layout))
                        \<lparr>num_blocks := num_blocks (sub_index (index layout)) - ob\<rparr>,
                     volume := (volume (index layout))
                        \<lparr>num_blocks := num_blocks (volume (index layout)) - ob\<rparr>\<rparr>"
  "total_blocks (converted_layout layout lvm ob) = total_blocks layout - ob"
  "header (converted_layout layout lvm ob) = header layout"
  "config (converted_layout layout lvm ob) = config layout"
  "seal (converted_layout layout lvm ob) = seal layout"
  by (simp_all add: converted_layout_def Let_def)

lemma converted_layout_restored:
  "(converted_layout layout lvm ob)\<lparr>index := index layout, super := super layout\<rparr> =
     layout\<lparr>total_blocks := total_blocks layout - ob\<rparr>"
  by (simp add: converted_layout_def Let_def)

text \<open>
  The encoders fill their buffers exactly: a region header and a region descriptor are
  24 bytes each, and the superblock data of version 7 is 120 bytes.
\<close>

lemma encode_lengths:
  "length (encode_uint64_le v) = 8" "length (encode_uint32_le w) = 4"
  "length (encode_uint16_le x) = 2"
  by (simp_all add: encode_uint64_le_def encode_uint32_le_def encode_uint16_le_def)

lemma length_region_bytes: "length (region_bytes r) = 24"
  by (simp add: region_bytes_def encode_lengths)

lemma put_bytes_fits:
  "length (buffer_contents b) + length bytes \<le> buffer_length b \<Longrightarrow>
   put_bytes b bytes = Inr (b\<lparr>buffer_contents := buffer_contents b @ bytes\<rparr>)"
  by (simp add: put_bytes_def)

lemma encode_region_header_bytes:
  assumes "length (buffer_contents b) + 24 \<le> buffer_length b"
  shows "encode_region_header b hd0 =
     Inr (b\<lparr>buffer_contents := buffer_contents b @
            (encode_uint64_le REGION_MAGIC @ encode_uint64_le (region_blocks hd0) @
             encode_uint16_le (rh_type hd0) @ encode_uint16_le (rh_version hd0) @
             encode_uint16_le (num_regions hd0) @ encode_uint16_le (payload hd0))\<rparr>)"
  using assms
  by (simp add: encode_region_header_def and_then_def put_uint64_le_into_buffer_def
      put_uint16_le_into_buffer_def put_bytes_fits encode_lengths)

lemma encode_layout_region_bytes:
  assumes "length (buffer_contents b) + 24 \<le> buffer_length b"
  shows "encode_layout_region b r =
     Inr (b\<lparr>buffer_contents := buffer_contents b @ region_bytes r\<rparr>)"
  using assms
  by (simp add: encode_layout_region_def and_then_def put_uint64_le_into_buffer_def
      put_uint32_le_into_buffer_def put_uint16_le_into_buffer_def put_bytes_fits
      encode_lengths region_bytes_def)

lemma encode_regions_bytes:
  "length (buffer_contents b) + 24 * length rs \<le> buffer_length b \<Longrightarrow>
   encode_regions (Inr b) rs =
     Inr (b\<lparr>buffer_contents := buffer_contents b @ concat (map region_bytes rs)\<rparr>)"
proof (induction rs arbitrary: b)
  case Nil
  then show ?case by simp
next
  case (Cons r rs)
  then have "length (buffer_contents b) + 24 \<le> buffer_length b" by simp
  note e1 = encode_layout_region_bytes [OF this, of r]
  let ?b' = "b\<lparr>buffer_contents := buffer_contents b @ region_bytes r\<rparr>"
  from Cons.prems have "length (buffer_contents ?b') + 24 * length rs \<le> buffer_length ?b'"
    by (simp add: length_region_bytes)
  from Cons.IH [OF this] e1 show ?case by (simp add: and_then_def)
qed

lemma encode_super_block_data_converted:
  assumes "length (magic_label sb) = 32" "length (nonce_info sb) = 32" "version sb = 7"
  shows "encode_super_block_data \<lparr>buffer_length = 120, buffer_contents = []\<rparr> sb =
       Inr \<lparr>buffer_length = 120,
            buffer_contents =
              converted_super_bytes sb (start_offset sb) (volume_offset sb)\<rparr>"
  using assms
  by (simp add: encode_super_block_data_def and_then_def put_uint64_le_into_buffer_def
      put_uint32_le_into_buffer_def put_uint16_le_into_buffer_def zero_bytes_def
      put_bytes_def encode_lengths is_converted_super_block_def converted_super_bytes_def)

lemma unat_region_count:
  fixes m :: "16 word"
  shows "unat (5 + ucast m :: 32 word) = 5 + unat m"
proof -
  have "unat m < 2 ^ 16" using unsigned_less [of m] by simp
  then have m: "unat m < 65536" by simp
  then have u: "unat (ucast m :: 32 word) = unat m"
    by (simp add: unsigned_ucast_eq take_bit_nat_eq_self)
  have "unat ((5 :: 32 word) + ucast m) = (unat (5 :: 32 word) + unat (ucast m :: 32 word)) mod 2 ^ 32"
    by (simp add: unat_word_ariths)
  with m u show ?thesis by simp
qed

lemma ucast_region_count:
  fixes m :: "16 word"
  shows "(ucast (5 + ucast m :: 32 word) :: 16 word) = 5 + m"
proof -
  have "unat (ucast (5 + ucast m :: 32 word) :: 16 word) = (5 + unat m) mod 2 ^ 16"
    by (simp add: unsigned_ucast_eq unat_region_count take_bit_eq_mod)
  moreover have "unat (5 + m) = (5 + unat m) mod 2 ^ 16"
    by (simp add: unat_word_ariths)
  ultimately show ?thesis by (simp add: word_unat_eq_iff)
qed

lemma make_single_file_region_table_ok:
  assumes "unat (max_saves (super layout)) \<le> length (saves (index layout))"
    and "\<forall>n. alloc n"
  shows "make_single_file_region_table alloc layout =
       Some (Inr (5 + ucast (max_saves (super layout)),
                  \<lparr>rt_header = zeroed_header,
                   regions = [header layout, config layout, sub_index (index layout),
                              volume (index layout)] @
                     map index_save (take (unat (max_saves (super layout)))
                                       (saves (index layout))) @
                     [seal layout]\<rparr>))"
  using assms
  by (simp add: make_single_file_region_table_def Let_def unat_region_count min_def)


text \<open>
  With memory at hand, \<^verbatim>\<open>write_single_file_header\<close> hands the writer the encoded
  region table and then the encoded superblock data, and flushes.
\<close>

lemma write_single_file_header_script:
  assumes al: "\<forall>n. alloc n"
    and lrs: "length (regions table) = unat n_regions"
    and lab: "length (magic_label (super layout)) = 32"
      "length (nonce_info (super layout)) = 32"
    and v: "version (super layout) = 7"
  shows "write_single_file_header io alloc layout table n_regions w d =
     (case write_to_buffered_writer io w
             (encode_uint64_le REGION_MAGIC @ encode_uint64_le (total_blocks layout) @
              encode_uint16_le RH_TYPE_SUPER @ encode_uint16_le 1 @
              encode_uint16_le (ucast n_regions) @ encode_uint16_le 120 @
              concat (map region_bytes (regions table))) d of
        (Inl e, d1) \<Rightarrow> (Inl e, d1)
      | (Inr u, d1) \<Rightarrow>
          (case write_to_buffered_writer io w
                  (converted_super_bytes (super layout) (start_offset (super layout))
                     (volume_offset (super layout))) d1 of
             (Inl e, d2) \<Rightarrow> (Inl e, d2)
           | (Inr u2, d2) \<Rightarrow> flush_buffered_writer io w d2))"
proof -
  let ?b = "\<lparr>buffer_length = 24 + unat n_regions * 24, buffer_contents = []\<rparr>"
  let ?hd = "\<lparr>magic = REGION_MAGIC, region_blocks = total_blocks layout,
                 rh_type = RH_TYPE_SUPER, rh_version = 1,
                 num_regions = ucast n_regions, payload = (120 :: 16 word)\<rparr>"
  let ?hb = "encode_uint64_le REGION_MAGIC @ encode_uint64_le (total_blocks layout) @
              encode_uint16_le RH_TYPE_SUPER @ encode_uint16_le 1 @
              encode_uint16_le (ucast n_regions) @ encode_uint16_le 120"
  have "length (buffer_contents ?b) + 24 \<le> buffer_length ?b" by simp
  from encode_region_header_bytes [OF this, of ?hd]
  have he: "encode_region_header ?b ?hd = Inr (?b\<lparr>buffer_contents := ?hb\<rparr>)"
    by simp
  let ?b1 = "?b\<lparr>buffer_contents := ?hb\<rparr>"
  have "length (buffer_contents ?b1) + 24 * length (regions table) \<le> buffer_length ?b1"
    using lrs by (simp add: encode_lengths)
  from encode_regions_bytes [OF this]
  have re: "encode_regions (Inr ?b1) (regions table) =
       Inr (?b1\<lparr>buffer_contents := ?hb @ concat (map region_bytes (regions table))\<rparr>)"
    by simp
  note se = encode_super_block_data_converted [OF lab v]
  show ?thesis
    using al v he re se
    by (simp add: write_single_file_header_def is_converted_super_block_def Let_def
        make_buffer_def split: prod.splits sum.splits)
qed

text \<open>
  With memory at hand, \<^verbatim>\<open>update_uds_layout\<close> does to the backing store what
  \<open>conversion_writes\<close> says, and returns its result code.
\<close>

lemma update_uds_layout_writes:
  assumes len: "unat (max_saves (super layout)) \<le> length (saves (index layout))"
    and al: "\<forall>n. alloc n"
    and lab: "length (magic_label (super layout)) = 32"
      "length (nonce_info (super layout)) = 32"
  shows "update_uds_layout io alloc layout cfg lvm_offset off d =
       Some (fst (conversion_writes io layout cfg (off_t_blocks lvm_offset)
                    (off_t_blocks off) d),
             layout\<lparr>total_blocks := total_blocks layout - off_t_blocks off\<rparr>,
             snd (conversion_writes io layout cfg (off_t_blocks lvm_offset)
                    (off_t_blocks off) d))"
proof -
  let ?ob = "off_t_blocks off"
  let ?lvm = "off_t_blocks lvm_offset"
  let ?n = "5 + ucast (max_saves (super layout)) :: 32 word"
  let ?lrs = "[header layout, config layout,
         (sub_index (index layout))
           \<lparr>num_blocks := num_blocks (sub_index (index layout)) - ?ob\<rparr>,
         (volume (index layout))
           \<lparr>num_blocks := num_blocks (volume (index layout)) - ?ob\<rparr>] @
        map index_save (take (unat (max_saves (super layout))) (saves (index layout))) @
        [seal layout]"
  define l6 where "l6 = converted_layout layout ?lvm ?ob"
  define table where "table = \<lparr>rt_header = zeroed_header, regions = ?lrs\<rparr>"
  note cf = converted_layout_fields [of layout ?lvm ?ob, folded l6_def]
  have len6: "unat (max_saves (super l6)) \<le> length (saves (index l6))"
    using len by (simp add: cf)
  have mk: "make_single_file_region_table alloc l6 = Some (Inr (?n, table))"
    using make_single_file_region_table_ok [OF len6 al] by (simp add: cf table_def)
  have lr: "length (regions table) = unat ?n"
    using len by (simp add: unat_region_count min_def table_def)
  have lab6: "length (magic_label (super l6)) = 32" "length (nonce_info (super l6)) = 32"
    and v6: "version (super l6) = 7"
    using lab by (simp_all add: cf)
  have tbe: "encode_uint64_le REGION_MAGIC @ encode_uint64_le (total_blocks l6) @
              encode_uint16_le RH_TYPE_SUPER @ encode_uint16_le 1 @
              encode_uint16_le (ucast ?n) @ encode_uint16_le 120 @
              concat (map region_bytes (regions table)) = converted_table_bytes layout ?ob"
    by (simp add: converted_table_bytes_def cf table_def ucast_region_count)
  have sbe: "converted_super_bytes (super l6) (start_offset (super l6))
               (volume_offset (super l6)) = converted_super_bytes (super layout) ?lvm ?ob"
    by (simp add: converted_super_bytes_def cf)
  have wr: "write_single_file_header io alloc l6 table ?n w d0 =
     (case write_to_buffered_writer io w (converted_table_bytes layout ?ob) d0 of
        (Inl e, d1) \<Rightarrow> (Inl e, d1)
      | (Inr u, d1) \<Rightarrow>
          (case write_to_buffered_writer io w
                  (converted_super_bytes (super layout) ?lvm ?ob) d1 of
             (Inl e, d2) \<Rightarrow> (Inl e, d2)
           | (Inr u2, d2) \<Rightarrow> flush_buffered_writer io w d2))" for w d0
    unfolding write_single_file_header_script [OF al lr lab6 v6] tbe sbe ..
  have op: "open_layout_writer io l6 lr0 ob0 d0 =
      open_uds_buffered_writer io
        ((start_block lr0 + ob0) * ucast (block_size (super layout)))
        (num_blocks lr0 * ucast (block_size (super layout))) d0" for lr0 ob0 d0
    by (simp add: open_layout_writer_def cf Let_def)
  have hd6: "header l6 = header layout" and cf6: "config l6 = config layout"
    by (simp_all add: cf)
  have cw: "write_uds_index_config io l6 cfg ?ob d0 =
     (case open_layout_writer io l6 (config layout) ?ob d0 of
        (Inl e, d1) \<Rightarrow> (Inl e, d1)
      | (Inr writer, d1) \<Rightarrow>
          (case write_config_contents io writer cfg 7 d1 of
             (Inl e, d2) \<Rightarrow> (Inl e, free_buffered_writer io writer d2)
           | (Inr u, d2) \<Rightarrow>
               (case flush_buffered_writer io writer d2 of
                  (Inl e, d3) \<Rightarrow> (Inl e, free_buffered_writer io writer d3)
                | (Inr u2, d3) \<Rightarrow> (UDS_SUCCESS, free_buffered_writer io writer d3))))"
    for d0
    unfolding write_uds_index_config_def v6 cf6 ..
  have ss: "save_single_file_layout io alloc l6 ?ob d =
      Some (case open_layout_writer io l6 (header layout) ?ob d of
              (Inl e, d1) \<Rightarrow> (Inl e, d1)
            | (Inr w, d1) \<Rightarrow>
                (let (r, d2) = write_single_file_header io alloc l6 table ?n w d1
                 in (r, free_buffered_writer io w d2)))"
    by (simp add: save_single_file_layout_def mk hd6 split: prod.splits sum.splits)
  have rest: "l6\<lparr>index := index layout, super := super layout\<rparr> =
      layout\<lparr>total_blocks := total_blocks layout - ?ob\<rparr>"
    by (simp add: l6_def converted_layout_restored)
  have upd: "update_uds_layout io alloc layout cfg lvm_offset off d =
      (case save_single_file_layout io alloc l6 ?ob d of
           None \<Rightarrow> None
         | Some (r, d1) \<Rightarrow>
             (let (r2, d2) = (if r = UDS_SUCCESS
                                then write_uds_index_config io l6 cfg ?ob d1
                              else (r, d1))
              in Some (r2, l6\<lparr>index := index layout, super := super layout\<rparr>, d2)))"
    unfolding update_uds_layout_def Let_def l6_def ..
  have key: "(case (case open_layout_writer io l6 (header layout) ?ob d of
              (Inl e, d1) \<Rightarrow> (Inl e, d1)
            | (Inr w, d1) \<Rightarrow>
                (let (r, d2) = write_single_file_header io alloc l6 table ?n w d1
                 in (r, free_buffered_writer io w d2))) of
          (r, d1) \<Rightarrow> if r = UDS_SUCCESS then write_uds_index_config io l6 cfg ?ob d1
                        else (r, d1)) =
        conversion_writes io layout cfg ?lvm ?ob d"
    unfolding wr cw op conversion_writes_def Let_def
    by (auto split: prod.splits sum.splits)
  show ?thesis
    unfolding upd ss rest key [symmetric]
    by (simp add: Let_def split: prod.splits)
qed

text \<open>
  Claim C10. Whatever the I/O layer and the allocator do, \<^verbatim>\<open>update_uds_layout\<close>
  returns, and the layout it leaves has the superblock data and the sub-index layout it
  had before the call; it differs from the layout before the call in \<^verbatim>\<open>total_blocks\<close>
  alone, which stays reduced. (The slot array must hold the \<^verbatim>\<open>max_saves\<close> slots that the
  region table is built from.) What reaches the backing store is the converted layout:
  when the allocations succeed (and the two labels of the superblock are the 32-byte
  arrays of the C struct), the result code and the state of the store are those of
  \<open>conversion_writes\<close>, which writes, at the header region shifted by the offset, the
  region table with the reduced block counts followed by the superblock data with
  version 7 and the two new offsets, and then, at the config region, the configuration
  for version 7, stopping at the first I/O failure.
\<close>

theorem update_uds_layout_restores:
  assumes len: "unat (max_saves (super layout)) \<le> length (saves (index layout))"
  shows "\<exists>r layout' d'.
      update_uds_layout io alloc layout cfg lvm_offset off d = Some (r, layout', d') \<and>
      super layout' = super layout \<and> index layout' = index layout \<and>
      layout' = layout\<lparr>total_blocks := total_blocks layout - off_t_blocks off\<rparr> \<and>
      ((\<forall>n. alloc n) \<and> length (magic_label (super layout)) = 32 \<and>
       length (nonce_info (super layout)) = 32 \<longrightarrow>
         (r, d') = conversion_writes io layout cfg (off_t_blocks lvm_offset)
                     (off_t_blocks off) d)"
proof -
  let ?l6 = "converted_layout layout (off_t_blocks lvm_offset) (off_t_blocks off)"
  have "unat (max_saves (super ?l6)) \<le> length (saves (index ?l6))"
    using len by (simp add: converted_layout_fields)
  from save_single_file_layout_defined [OF this, of io alloc "off_t_blocks off" d]
  obtain r d1 where s: "save_single_file_layout io alloc ?l6 (off_t_blocks off) d = Some (r, d1)"
    by blast
  obtain r2 d2 where w: "(if r = UDS_SUCCESS
        then write_uds_index_config io ?l6 cfg (off_t_blocks off) d1 else (r, d1)) = (r2, d2)"
    by (cases "if r = UDS_SUCCESS
        then write_uds_index_config io ?l6 cfg (off_t_blocks off) d1 else (r, d1)") blast
  have u: "update_uds_layout io alloc layout cfg lvm_offset off d =
      Some (r2, layout\<lparr>total_blocks := total_blocks layout - off_t_blocks off\<rparr>, d2)"
    unfolding update_uds_layout_def Let_def s
    by (simp only: option.case prod.case w converted_layout_restored)
  have "(r2, d2) = conversion_writes io layout cfg (off_t_blocks lvm_offset)
                     (off_t_blocks off) d"
    if "\<forall>n. alloc n" "length (magic_label (super layout)) = 32"
      "length (nonce_info (super layout)) = 32"
    using update_uds_layout_writes [OF len that, of io cfg lvm_offset off d] u
    by (simp add: prod_eq_iff)
  with u show ?thesis by simp
qed


text \<open>
  The example layout converted by 1 MiB (256 blocks) over a recording store: the three
  writes, and the bytes of the first two.
\<close>

lemma off_t_blocks_1MiB: "off_t_blocks 1048576 = 256"
  by (simp add: off_t_blocks_def signed_divide_int_def)

lemma conversion_writes_example:
  "conversion_writes recording_io example_layout () 256 256 [] =
     (UDS_SUCCESS, [converted_table_bytes example_layout 256,
                    converted_super_bytes example_super 256 256, [7]])"
  by (simp add: conversion_writes_def recording_io_def Let_def example_layout_def)

lemma replicate_4: "replicate 4 x = [x, x, x, x]" by (simp add: eval_nat_numeral)

lemma converted_super_bytes_example:
  "converted_super_bytes example_super 256 256 =
     SINGLE_FILE_MAGIC_1 @ replicate 32 0 @
     [0, 0, 0, 0, 0, 0, 0, 0,  7, 0, 0, 0,  0, 16, 0, 0,  1, 0,  2, 0,  0, 0, 0, 0,
      3, 0, 0, 0, 0, 0, 0, 0,  2, 0, 0, 0, 0, 0, 0, 0,
      0, 1, 0, 0, 0, 0, 0, 0,  0, 1, 0, 0, 0, 0, 0, 0]"
  by (simp add: converted_super_bytes_def example_super_def encode_uint64_le_def
      encode_uint32_le_def encode_uint16_le_def replicate_4)

lemma converted_table_bytes_example:
  "converted_table_bytes example_layout 256 =
     encode_uint64_le REGION_MAGIC @
     [235, 2, 0, 0, 0, 0, 0, 0,  1, 0,  1, 0,  7, 0,  120, 0] @
     [0, 0, 0, 0, 0, 0, 0, 0, 0, 0, 0, 0, 0, 0, 0, 0, 0, 0, 0, 0, 0, 0, 0, 0, 0, 0, 0, 0,
      0, 0, 0, 0, 0, 0, 0, 0, 0, 0, 0, 0, 0, 0, 0, 0, 0, 0, 0, 0] @
     [10, 0, 0, 0, 0, 0, 0, 0,  232, 2, 0, 0, 0, 0, 0, 0,  0, 0, 0, 0,  202, 0,  0, 0,
      10, 0, 0, 0, 0, 0, 0, 0,  32, 2, 0, 0, 0, 0, 0, 0,  0, 0, 0, 0,  202, 0,  0, 0,
      10, 0, 0, 0, 0, 0, 0, 0,  100, 0, 0, 0, 0, 0, 0, 0,  0, 0, 0, 0,  202, 0,  0, 0,
      10, 0, 0, 0, 0, 0, 0, 0,  100, 0, 0, 0, 0, 0, 0, 0,  0, 0, 0, 0,  202, 0,  0, 0] @
     [0, 0, 0, 0, 0, 0, 0, 0, 0, 0, 0, 0, 0, 0, 0, 0, 0, 0, 0, 0, 0, 0, 0, 0]"
  by (simp add: converted_table_bytes_def region_bytes_def example_layout_def
      example_super_def save_region_def zeroed_region_def example_slot_def
      encode_uint64_le_def encode_uint32_le_def encode_uint16_le_def RH_TYPE_SUPER_def)

text \<open>
  Claim C10 at the example layout, converted by 1 MiB over the recording store with an
  allocator that always succeeds.
\<close>

theorem update_uds_layout_restores_witness:
  "unat (max_saves (super example_layout)) \<le> length (saves (index example_layout)) \<and>
   (\<forall>n. always_allocates n) \<and>
   length (magic_label (super example_layout)) = 32 \<and>
   length (nonce_info (super example_layout)) = 32 \<and>
   off_t_blocks 1048576 = 256 \<and>
   update_uds_layout recording_io always_allocates example_layout () 1048576 1048576 [] =
     Some (UDS_SUCCESS, example_layout\<lparr>total_blocks := 747\<rparr>,
           [converted_table_bytes example_layout 256,
            converted_super_bytes example_super 256 256, [7]]) \<and>
   super (example_layout\<lparr>total_blocks := 747\<rparr>) = example_super \<and>
   index (example_layout\<lparr>total_blocks := 747\<rparr>) = index example_layout"
proof -
  have h: "unat (max_saves (super example_layout)) \<le> length (saves (index example_layout))"
    by (simp add: example_layout_def example_super_def)
  have a: "\<forall>n. always_allocates n" by (simp add: always_allocates_def)
  have l: "length (magic_label (super example_layout)) = 32"
    "length (nonce_info (super example_layout)) = 32"
    by (simp_all add: example_layout_def example_super_def SINGLE_FILE_MAGIC_1_def)
  have t: "total_blocks example_layout - 256 = 747" by (simp add: example_layout_def)
  have s: "super example_layout = example_super" by (simp add: example_layout_def)
  from update_uds_layout_restores [OF h, of recording_io always_allocates "()" 1048576
      1048576 "[]"] a l
  obtain r layout' d' where
    u: "update_uds_layout recording_io always_allocates example_layout () 1048576 1048576 [] =
        Some (r, layout', d')"
    and l': "layout' = example_layout
         \<lparr>total_blocks := total_blocks example_layout - off_t_blocks 1048576\<rparr>"
    and w: "(r, d') = conversion_writes recording_io example_layout ()
         (off_t_blocks 1048576) (off_t_blocks 1048576) []"
    by blast
  from w have "r = UDS_SUCCESS"
    "d' = [converted_table_bytes example_layout 256,
           converted_super_bytes example_super 256 256, [7]]"
    by (simp_all add: off_t_blocks_1MiB conversion_writes_example)
  with u l' t h a l s show ?thesis by (simp add: off_t_blocks_1MiB)
qed

end
